theory Spec2Isabelle
  imports Main "HOL-Library.Sublist"
begin

section \<open>Python strings\<close>

text \<open>
  A Python \<^verbatim>\<open>str\<close> is a sequence of Unicode code points, and \<^verbatim>\<open>len\<close>, slicing and
  \<^verbatim>\<open>strip\<close> count code points. A character is therefore modelled by its code point
  (a \<^typ>\<open>nat\<close>) and a string by the list of its code points. \<open>lit\<close> maps an ASCII
  literal to that representation; text outside ASCII is written as its code points.
\<close>

type_synonym str = "nat list"

definition lit :: "string \<Rightarrow> str" where
  "lit s = map of_char s"

definition ch :: "char \<Rightarrow> nat" where
  "ch c = of_char c"

definition nl :: nat where
  "nl = 10"

text \<open>
  \<^verbatim>\<open>str.isspace\<close>, which is also the class \<^verbatim>\<open>\s\<close> of a \<^verbatim>\<open>str\<close> pattern: the code
  points Python classifies as whitespace.
\<close>

definition isspace :: "nat \<Rightarrow> bool" where
  "isspace c =
     (c \<in> {9, 10, 11, 12, 13, 28, 29, 30, 31, 32, 133, 160, 5760, 8232, 8233, 8239, 8287, 12288}
      \<or> (8192 \<le> c \<and> c \<le> 8202))"

definition lstrip :: "str \<Rightarrow> str" where
  "lstrip s = dropWhile isspace s"

definition rstrip :: "str \<Rightarrow> str" where
  "rstrip s = rev (dropWhile isspace (rev s))"

definition strip :: "str \<Rightarrow> str" where
  "strip s = rstrip (lstrip s)"

definition startswith :: "str \<Rightarrow> str \<Rightarrow> bool" where
  "startswith s p = prefix p s"

text \<open>\<^verbatim>\<open>sub in s\<close>: \<open>sub\<close> occurs in \<open>s\<close> as a contiguous run.\<close>

definition contains :: "str \<Rightarrow> str \<Rightarrow> bool" where
  "contains s sub = sublist sub s"

text \<open>
  \<^verbatim>\<open>re.sub\<close> and \<^verbatim>\<open>str.replace\<close> scan the string from the left. At each position the
  pattern is tried; a match (here always of one character or more) is replaced and the scan
  goes on behind it, otherwise the character is copied. \<open>m\<close> is the pattern tried at the
  head of a string: it yields the replacement and the length of the match. \<open>skip\<close> counts
  the characters of the last match that are still to be passed over.
\<close>

fun sub_scan :: "(str \<Rightarrow> (str \<times> nat) option) \<Rightarrow> nat \<Rightarrow> str \<Rightarrow> str" where
  "sub_scan m skip [] = []"
| "sub_scan m skip (c # cs) =
     (if 0 < skip then sub_scan m (skip - 1) cs
      else (case m (c # cs) of
              Some (r, n) \<Rightarrow> r @ sub_scan m (n - 1) cs
            | None \<Rightarrow> c # sub_scan m 0 cs))"

definition match_literal :: "str \<Rightarrow> str \<Rightarrow> str \<Rightarrow> (str \<times> nat) option" where
  "match_literal old new s = (if old \<noteq> [] \<and> prefix old s then Some (new, length old) else None)"

text \<open>\<^verbatim>\<open>s.replace(old, new)\<close> for a non-empty \<open>old\<close>, the only use the code makes of it.\<close>

definition str_replace :: "str \<Rightarrow> str \<Rightarrow> str \<Rightarrow> str" where
  "str_replace s old new = sub_scan (match_literal old new) 0 s"

text \<open>
  \<^verbatim>\<open>s.split(sep)\<close> for a non-empty separator: the pieces between the occurrences of
  \<open>sep\<close>, found from the left and not overlapping. \<open>cur\<close> is the piece being read, in
  reverse; \<open>skip\<close> counts the characters of the last separator still to be passed over.
\<close>

fun split_scan :: "str \<Rightarrow> nat \<Rightarrow> str \<Rightarrow> str \<Rightarrow> str list" where
  "split_scan sep skip cur [] = [rev cur]"
| "split_scan sep skip cur (c # cs) =
     (if 0 < skip then split_scan sep (skip - 1) cur cs
      else if sep \<noteq> [] \<and> prefix sep (c # cs) then rev cur # split_scan sep (length sep - 1) [] cs
      else split_scan sep 0 (c # cur) cs)"

definition split_str :: "str \<Rightarrow> str \<Rightarrow> str list" where
  "split_str s sep = split_scan sep 0 [] s"

fun join :: "str \<Rightarrow> str list \<Rightarrow> str" where
  "join sep [] = []"
| "join sep [x] = x"
| "join sep (x # y # ys) = x @ sep @ join sep (y # ys)"

text \<open>\<^verbatim>\<open>str(n)\<close> of an integer, as an f-string formats it: the decimal digits.\<close>

function str_of_nat :: "nat \<Rightarrow> str" where
  "str_of_nat n = (if n < 10 then [48 + n] else str_of_nat (n div 10) @ [48 + n mod 10])"
  by pat_completeness auto
termination
  by (relation "measure id") auto

definition str_of_int :: "int \<Rightarrow> str" where
  "str_of_int i = (if i < 0 then ch CHR ''-'' # str_of_nat (nat (- i)) else str_of_nat (nat i))"

section \<open>Faults\<close>

text \<open>
  A Python exception is a value: a computation that may raise returns \<open>fault + 'a\<close>, with
  \<open>Inl\<close> the exception. The constructors are the exception classes the handlers of the
  code tell apart (\<^verbatim>\<open>ValueError\<close>) and the ones its own statements raise.
\<close>

datatype fault = ValueError | KeyError | IndexError | AttributeError | TypeError | OSError
  | RegexError | LibraryError

section \<open>TextCleaner: clean_title and clean_content\<close>

text \<open>
  The pattern \<^verbatim>\<open>\[([^\]]+)\]\([^)]+\)\<close> of \<^verbatim>\<open>clean_title\<close>, tried at the head of a string:
  an opening bracket, the longest run of characters other than the closing bracket (group 1,
  not empty), the closing bracket, an opening parenthesis, the longest run of characters
  other than the closing parenthesis (not empty) and the closing parenthesis. Both runs end
  at the first character they exclude, so no shorter run can match. The replacement
  \<^verbatim>\<open>\1\<close> is group 1.
\<close>

definition match_md_link :: "str \<Rightarrow> (str \<times> nat) option" where
  "match_md_link s =
     (case s of
        [] \<Rightarrow> None
      | c # r \<Rightarrow>
          if c \<noteq> ch CHR ''['' then None
          else
            let t = takeWhile (\<lambda>x. x \<noteq> ch CHR '']'') r;
                r1 = dropWhile (\<lambda>x. x \<noteq> ch CHR '']'') r
            in if t = [] then None
               else (case r1 of
                       a # b # r2 \<Rightarrow>
                         if a = ch CHR '']'' \<and> b = ch CHR ''('' then
                           let u = takeWhile (\<lambda>x. x \<noteq> ch CHR '')'') r2;
                               r3 = dropWhile (\<lambda>x. x \<noteq> ch CHR '')'') r2
                           in if u = [] \<or> r3 = [] then None
                              else Some (t, 1 + length t + 2 + length u + 1)
                         else None
                     | _ \<Rightarrow> None))"

text \<open>
  \<^verbatim>\<open>clean_title(title)\<close>. The argument is \<open>None\<close> when a capture group took no part in the
  match; \<^verbatim>\<open>if not title\<close> sends it, like the empty string, to the empty string.
\<close>

definition clean_title :: "str option \<Rightarrow> str" where
  "clean_title title =
     (case title of
        None \<Rightarrow> []
      | Some t \<Rightarrow>
          if t = [] then []
          else
            let t1 = str_replace t (lit ''*'') [];
                t2 = sub_scan match_md_link 0 t1
            in strip (str_replace t2 [nl] (lit '' '')))"

text \<open>
  \<^verbatim>\<open>re.sub(r'^\*{1,2}\s*', '', content)\<close>: without \<^verbatim>\<open>re.MULTILINE\<close> the anchor holds at
  the start only, so at most one match is removed: one or two asterisks (two when there are
  two) and the whitespace behind them.
\<close>

definition strip_leading_stars :: "str \<Rightarrow> str" where
  "strip_leading_stars s =
     (case s of
        [] \<Rightarrow> []
      | c # r \<Rightarrow>
          if c \<noteq> ch CHR ''*'' then s
          else (case r of
                  [] \<Rightarrow> []
                | d # r' \<Rightarrow> if d = ch CHR ''*'' then dropWhile isspace r' else dropWhile isspace r))"

text \<open>
  \<^verbatim>\<open>re.sub(r'^\s*\n+', '', content)\<close>: the greedy \<^verbatim>\<open>\s*\<close> takes the whole leading run of
  whitespace and gives back characters until a line break follows, so the match ends behind
  the last line break of that run; with no line break in the run nothing matches.
\<close>

definition strip_leading_blank_lines :: "str \<Rightarrow> str" where
  "strip_leading_blank_lines s =
     (let w = takeWhile isspace s
      in if nl \<in> set w
         then drop (length w - length (takeWhile (\<lambda>x. x \<noteq> nl) (rev w))) s
         else s)"

definition clean_content :: "str \<Rightarrow> str" where
  "clean_content content =
     (if content = [] then [] else strip_leading_blank_lines (strip_leading_stars content))"

section \<open>PatternTitleExtractor: extract_telegram_title_and_content\<close>

text \<open>
  The title patterns are read from \<^verbatim>\<open>configs/title_template.json\<close> and compiled by the
  regular expression library; neither is part of the code, so both are parameters.
  \<^item> \<open>cfg\<close> is what reading the file and taking \<^verbatim>\<open>title_config['patterns']\<close> gives: a
    fault, or the list of pattern records. A record's key may be missing (\<open>None\<close>).
  \<^item> \<open>re\<close> is \<^verbatim>\<open>re.compile(pattern_str, re.MULTILINE)\<close>: a fault, or the compiled pattern,
    whose \<^verbatim>\<open>match(content)\<close> looks for a match that starts at the first character and
    yields none or a match object.
  \<^item> Of a match object the code reads \<^verbatim>\<open>span(0)\<close>, whose start is 0 and whose end is
    \<open>m_end\<close>, and \<^verbatim>\<open>group(1)\<close>: it raises \<^verbatim>\<open>IndexError\<close> when the pattern has no group 1
    and is \<^verbatim>\<open>None\<close> when the group took no part in the match.
\<close>

record pattern_info =
  pi_pattern :: "str option"
  pi_description :: "str option"

datatype rgroup = NoSuchGroup | NotParticipating | Group str

record rmatch =
  m_end :: nat
  m_group1 :: rgroup

type_synonym compiled = "str \<Rightarrow> rmatch option"

type_synonym regex_engine = "str \<Rightarrow> fault + compiled"

text \<open>\<^verbatim>\<open>match.group(1)\<close>.\<close>

definition group1 :: "rmatch \<Rightarrow> fault + str option" where
  "group1 m =
     (case m_group1 m of
        NoSuchGroup \<Rightarrow> Inl IndexError
      | NotParticipating \<Rightarrow> Inr None
      | Group g \<Rightarrow> Inr (Some g))"

text \<open>
  The loop over the patterns. \<open>Inr None\<close>: the loop ended without a match; \<open>Inr (Some r)\<close>:
  the \<^verbatim>\<open>return\<close> inside the loop; \<open>Inl\<close>: a statement of the loop raised.
\<close>

fun try_patterns :: "regex_engine \<Rightarrow> pattern_info list \<Rightarrow> str \<Rightarrow> fault + (str \<times> str) option" where
  "try_patterns re [] content = Inr None"
| "try_patterns re (pattern_info # rest) content =
     (case pi_pattern pattern_info of
        None \<Rightarrow> Inl KeyError
      | Some pattern_str \<Rightarrow>
          (case pi_description pattern_info of
             None \<Rightarrow> Inl KeyError
           | Some pattern_desc \<Rightarrow>
               (case re pattern_str of
                  Inl e \<Rightarrow> Inl e
                | Inr pattern \<Rightarrow>
                    (case pattern content of
                       None \<Rightarrow> try_patterns re rest content
                     | Some m \<Rightarrow>
                         (case group1 m of
                            Inl e \<Rightarrow> Inl e
                          | Inr g \<Rightarrow>
                              Inr (Some (clean_title g, lstrip (drop (m_end m) content))))))))"

text \<open>The title when no pattern matches: lines 67 to 71.\<close>

definition default_title :: "str \<Rightarrow> str" where
  "default_title content =
     (let clean = strip (str_replace (clean_content content) [nl] (lit '' ''));
          title = take 20 clean
      in if 20 < length clean then title @ lit ''...'' else title)"

text \<open>The body of the \<^verbatim>\<open>try\<close> block, for a content that is not empty.\<close>

definition extract_try :: "fault + pattern_info list \<Rightarrow> regex_engine \<Rightarrow> str \<Rightarrow> fault + (str \<times> str)" where
  "extract_try cfg re content =
     (case cfg of
        Inl e \<Rightarrow> Inl e
      | Inr patterns \<Rightarrow>
          (case try_patterns re patterns content of
             Inl e \<Rightarrow> Inl e
           | Inr (Some r) \<Rightarrow> Inr r
           | Inr None \<Rightarrow> Inr (default_title content, content)))"

text \<open>
  \<^verbatim>\<open>extract_telegram_title_and_content(content)\<close>. The content may be absent (\<open>None\<close>):
  \<^verbatim>\<open>if not content\<close> answers it like the empty string. The handler of the \<^verbatim>\<open>try\<close> block
  returns the empty title and the content it was given.
\<close>

definition extract_telegram_title_and_content ::
    "fault + pattern_info list \<Rightarrow> regex_engine \<Rightarrow> str option \<Rightarrow> str \<times> str" where
  "extract_telegram_title_and_content cfg re content =
     (case content of
        None \<Rightarrow> ([], [])
      | Some c \<Rightarrow>
          if c = [] then ([], [])
          else (case extract_try cfg re c of
                  Inl e \<Rightarrow> ([], c)
                | Inr r \<Rightarrow> r))"

text \<open>
  A configured pattern that is well formed, compiles and does not match the content: the
  loop passes it and goes on to the next one.
\<close>

definition passes :: "regex_engine \<Rightarrow> str \<Rightarrow> pattern_info \<Rightarrow> bool" where
  "passes re content p =
     (case pi_pattern p of
        None \<Rightarrow> False
      | Some pattern_str \<Rightarrow>
          (case pi_description p of
             None \<Rightarrow> False
           | Some d \<Rightarrow> (case re pattern_str of Inl e \<Rightarrow> False | Inr pattern \<Rightarrow> pattern content = None)))"

text \<open>
  A configured pattern at which the loop raises: a key is missing, the pattern does not
  compile, or it matches and has no group 1.
\<close>

definition faulty :: "regex_engine \<Rightarrow> str \<Rightarrow> pattern_info \<Rightarrow> bool" where
  "faulty re content p =
     (case pi_pattern p of
        None \<Rightarrow> True
      | Some pattern_str \<Rightarrow>
          (case pi_description p of
             None \<Rightarrow> True
           | Some d \<Rightarrow>
               (case re pattern_str of
                  Inl e \<Rightarrow> True
                | Inr pattern \<Rightarrow>
                    (case pattern content of
                       None \<Rightarrow> False
                     | Some m \<Rightarrow> m_group1 m = NoSuchGroup))))"

section \<open>MarkdownRenderer: convert_markdown_to_html\<close>

text \<open>
  The pattern \<^verbatim>\<open>\n{2,}\<close>, tried at the head of a string: the whole run of line breaks
  there, when it has two or more.
\<close>

definition match_nl_run :: "str \<Rightarrow> str \<Rightarrow> (str \<times> nat) option" where
  "match_nl_run repl s =
     (let n = length (takeWhile (\<lambda>c. c = nl) s) in if 2 \<le> n then Some (repl, n) else None)"

text \<open>
  Lines 360 to 369: every run of line breaks becomes the paragraph marker, a line that
  starts with \<^verbatim>\<open>#\<close> gets a backslash in front, and every line gets two spaces behind. The
  result is assigned to the variable \<^verbatim>\<open>text\<close> itself.
\<close>

definition preprocess_markdown :: "str \<Rightarrow> str" where
  "preprocess_markdown text =
     (let text1 = sub_scan (match_nl_run ([nl, nl] @ lit ''<!-- paragraph -->'' @ [nl, nl])) 0 text;
          lines = split_str text1 [nl];
          processed_lines =
            map (\<lambda>line. (if startswith line (lit ''#'') then 92 # line else line) @ lit ''  '') lines
      in join [nl] processed_lines)"

text \<open>Lines 383 to 388, the handler's rendering of the variable \<^verbatim>\<open>text\<close>.\<close>

definition fallback_html :: "str \<Rightarrow> str" where
  "fallback_html text =
     (let text1 = sub_scan (match_nl_run (lit ''</p><p>'')) 0 text;
          text2 = str_replace text1 [nl] (lit ''<br>'')
      in lit ''<p>'' @ text2 @ lit ''</p>'')"

text \<open>
  \<^verbatim>\<open>convert_markdown_to_html(text)\<close>. The markdown library is a parameter:
  \<^verbatim>\<open>markdown.markdown(text, extensions=['extra'])\<close> yields the markup or raises. When it
  raises, the variable \<^verbatim>\<open>text\<close> holds the preprocessed text, and the handler renders that.
\<close>

definition convert_markdown_to_html :: "(str \<Rightarrow> fault + str) \<Rightarrow> str \<Rightarrow> str" where
  "convert_markdown_to_html markdown text =
     (if text = [] then []
      else
        let text' = preprocess_markdown text
        in (case markdown text' of
              Inr html \<Rightarrow> str_replace html (lit ''<p><!-- paragraph --></p>'') (lit ''</p><p>'')
            | Inl e \<Rightarrow> fallback_html text'))"

section \<open>Entries, media and settings\<close>

text \<open>
  The classes \<^verbatim>\<open>Entry\<close> and \<^verbatim>\<open>Media\<close> and the settings object are imported by the code;
  their fields are the attributes the code reads. The code asks \<^verbatim>\<open>hasattr\<close> for the
  attributes \<^verbatim>\<open>type\<close>, \<^verbatim>\<open>size\<close> and \<^verbatim>\<open>original_name\<close> of a media item, so these may be
  absent (\<open>None\<close>); reading an absent attribute raises \<^verbatim>\<open>AttributeError\<close>.
\<close>

record media =
  m_url :: str
  m_type :: "str option"
  m_size :: "int option"
  m_filename :: str
  m_original_name :: "str option"

record entry =
  e_id :: "str option"
  e_message_id :: "str option"
  e_content :: "str option"
  e_media :: "media list"
  e_rule_id :: int
  e_published :: str
  e_author :: "str option"
  e_link :: "str option"

text \<open>
  A \<^verbatim>\<open>datetime\<close>: its position on its own wall clock, in microseconds since
  1970-01-01T00:00:00, and its \<^verbatim>\<open>tzinfo\<close> as the offset from UTC in minutes (\<open>None\<close>: a
  naive datetime).
\<close>

record datetime =
  dt_micros :: int
  dt_tzinfo :: "int option"

text \<open>\<^verbatim>\<open>dt - timedelta(hours=i)\<close>.\<close>

definition minus_hours :: "datetime \<Rightarrow> int \<Rightarrow> datetime" where
  "minus_hours dt i = dt\<lparr>dt_micros := dt_micros dt - i * 3600000000\<rparr>"

text \<open>
  What the code takes from outside itself, as parameters:
  \<^item> \<open>HOST\<close>, \<open>PORT\<close> and \<open>get_rule_media_path\<close> of the settings object;
  \<^item> \<open>title_config\<close> and \<open>re_compile\<close>, the title patterns and the regular expression
    library (see above); \<open>markdown\<close>, the markdown library;
  \<^item> \<open>fromisoformat\<close>, \<^verbatim>\<open>datetime.fromisoformat\<close>: a datetime, or a fault
    (\<^verbatim>\<open>ValueError\<close> for a string it cannot parse);
  \<^item> \<open>published_rejects\<close>, the feed library's setter \<^verbatim>\<open>fe.published(dt)\<close>: \<open>None\<close> when it
    stores the value, or the fault it raises. It is the one setter of the library that the
    code calls inside a \<^verbatim>\<open>try\<close> block whose handler names the exception class;
  \<^item> \<open>now_tz k\<close>, what \<^verbatim>\<open>datetime.now(settings.DEFAULT_TIMEZONE)\<close> returns while entry \<open>k\<close>
    of the list is built (the code reads it at most once per entry);
  \<^item> \<open>now_local k\<close>, what the \<open>k\<close>-th call of \<^verbatim>\<open>datetime.now()\<close> returns, and \<open>strftime\<close>,
    the formatting \<^verbatim>\<open>strftime('%Y-%m-%d %H:%M:%S')\<close>.
\<close>

record env =
  HOST :: str
  PORT :: int
  get_rule_media_path :: "int \<Rightarrow> fault + str"
  title_config :: "fault + pattern_info list"
  re_compile :: regex_engine
  markdown :: "str \<Rightarrow> fault + str"
  fromisoformat :: "str \<Rightarrow> fault + datetime"
  published_rejects :: "datetime \<Rightarrow> fault option"
  now_tz :: "nat \<Rightarrow> datetime"
  now_local :: "nat \<Rightarrow> datetime"
  strftime :: "datetime \<Rightarrow> str"

definition base_url :: "env \<Rightarrow> str" where
  "base_url env = lit ''http://'' @ HOST env @ lit '':'' @ str_of_int (PORT env)"

section \<open>MediaEmbedder: the fragments and the first pass over the media\<close>

text \<open>
  \<^verbatim>\<open>os.path.basename(media.url.split('/')[-1])\<close>: the piece behind the last slash, which
  holds no slash and is its own base name.
\<close>

definition media_filename :: "media \<Rightarrow> str" where
  "media_filename m = last (split_str (m_url m) (lit ''/''))"

definition full_media_url :: "env \<Rightarrow> int \<Rightarrow> media \<Rightarrow> str" where
  "full_media_url env rule_id m =
     base_url env @ lit ''/media/'' @ str_of_int rule_id @ lit ''/'' @ media_filename m"

text \<open>
  The display name: \<^verbatim>\<open>media.original_name\<close> when the attribute is there and not empty,
  else \<^verbatim>\<open>media.filename\<close>.
\<close>

definition display_name :: "media \<Rightarrow> str" where
  "display_name m =
     (case m_original_name m of
        None \<Rightarrow> m_filename m
      | Some n \<Rightarrow> if n = [] then m_filename m else n)"

text \<open>The image tag of the first pass (line 182).\<close>

definition img_tag :: "str \<Rightarrow> str \<Rightarrow> str" where
  \<open>img_tag url filename =
     lit ''<p><img src="'' @ url @ lit ''" alt="'' @ filename
     @ lit ''" style="max-width:100%;height:auto;display:block;" /></p>''\<close>

text \<open>The image tag of the second pass (line 289).\<close>

definition missing_img_tag :: "str \<Rightarrow> str \<Rightarrow> str" where
  \<open>missing_img_tag url filename =
     lit ''<p><img src="'' @ url @ lit ''" alt="'' @ filename @ lit ''" style="max-width:100%;" /></p>''\<close>

text \<open>
  The video player, the audio player and the download link (lines 197, 220 and 243), line
  by line; the text outside ASCII is the browser notice and the download label.
\<close>

definition video_player :: "str \<Rightarrow> str \<Rightarrow> str \<Rightarrow> str" where
  \<open>video_player url mtype name =
     [nl] @
     lit ''                            <div style="margin:15px 0;border:1px solid #eee;padding:10px;border-radius:5px;background-color:#f9f9f9;">'' @ [nl] @
     lit ''                                <video controls width="100%" preload="none" poster="" style="width:100%;max-width:600px;display:block;margin:0 auto;">'' @ [nl] @
     lit ''                                    <source src="'' @ url @ lit ''" type="'' @ mtype @ lit ''">'' @ [nl] @
     lit ''                                    '' @ [0x60A8, 0x7684, 0x6D4F, 0x89C8, 0x5668, 0x4E0D, 0x652F, 0x6301] @ lit ''HTML5'' @ [0x89C6, 0x9891, 0x64AD, 0x653E] @ [nl] @
     lit ''                                </video>'' @ [nl] @
     lit ''                                <p style="text-align:center;margin-top:8px;font-size:14px;">'' @ [nl] @
     lit ''                                    <a href="'' @ url @ lit ''" target="_blank">'' @ [0x4E0B, 0x8F7D, 0x89C6, 0x9891] @ lit '': '' @ name @ lit ''</a>'' @ [nl] @
     lit ''                                </p>'' @ [nl] @
     lit ''                            </div>'' @ [nl] @
     lit ''                            ''\<close>

definition audio_player :: "str \<Rightarrow> str \<Rightarrow> str \<Rightarrow> str" where
  \<open>audio_player url mtype name =
     [nl] @
     lit ''                            <div style="margin:15px 0;border:1px solid #eee;padding:10px;border-radius:5px;background-color:#f9f9f9;">'' @ [nl] @
     lit ''                                <audio controls style="width:100%;max-width:600px;display:block;margin:0 auto;">'' @ [nl] @
     lit ''                                    <source src="'' @ url @ lit ''" type="'' @ mtype @ lit ''">'' @ [nl] @
     lit ''                                    '' @ [0x60A8, 0x7684, 0x6D4F, 0x89C8, 0x5668, 0x4E0D, 0x652F, 0x6301] @ lit ''HTML5'' @ [0x97F3, 0x9891, 0x64AD, 0x653E] @ [nl] @
     lit ''                                </audio>'' @ [nl] @
     lit ''                                <p style="text-align:center;margin-top:8px;font-size:14px;">'' @ [nl] @
     lit ''                                    <a href="'' @ url @ lit ''" target="_blank">'' @ [0x4E0B, 0x8F7D, 0x97F3, 0x9891] @ lit '': '' @ name @ lit ''</a>'' @ [nl] @
     lit ''                                </p>'' @ [nl] @
     lit ''                            </div>'' @ [nl] @
     lit ''                            ''\<close>

definition file_tag :: "str \<Rightarrow> str \<Rightarrow> str" where
  \<open>file_tag url name =
     [nl] @
     lit ''                            <div style="margin:15px 0;padding:10px;border-radius:5px;background-color:#f5f5f5;text-align:center;">'' @ [nl] @
     lit ''                                <a href="'' @ url @ lit ''" target="_blank" style="display:inline-block;padding:8px 16px;background-color:#4CAF50;color:white;text-decoration:none;border-radius:4px;">'' @ [nl] @
     lit ''                                    '' @ [0x4E0B, 0x8F7D, 0x6587, 0x4EF6] @ lit '': '' @ name @ [nl] @
     lit ''                                </a>'' @ [nl] @
     lit ''                            </div>'' @ [nl] @
     lit ''                            ''\<close>

text \<open>
  One turn of the loop of lines 167 to 250. \<^verbatim>\<open>media.type.startswith\<close> raises when the
  attribute is absent, outside the inner \<^verbatim>\<open>try\<close>. For an image, a fault of
  \<^verbatim>\<open>settings.get_rule_media_path\<close> is caught by the inner handler before the tag is
  appended, and the content stays as it was.
\<close>

definition embed_one :: "env \<Rightarrow> int \<Rightarrow> str \<Rightarrow> media \<Rightarrow> fault + str" where
  "embed_one env rule_id content m =
     (case m_type m of
        None \<Rightarrow> Inl AttributeError
      | Some t \<Rightarrow>
          if startswith t (lit ''image/'') then
            (case get_rule_media_path env rule_id of
               Inl e \<Rightarrow> Inr content
             | Inr rule_media_path \<Rightarrow>
                 Inr (content @ img_tag (full_media_url env rule_id m) (m_filename m)))
          else if startswith t (lit ''video/'') then
            Inr (content @ video_player (full_media_url env rule_id m) t (display_name m))
          else if startswith t (lit ''audio/'') then
            Inr (content @ audio_player (full_media_url env rule_id m) t (display_name m))
          else Inr (content @ file_tag (full_media_url env rule_id m) (display_name m)))"

fun embed_media :: "env \<Rightarrow> int \<Rightarrow> str \<Rightarrow> media list \<Rightarrow> fault + str" where
  "embed_media env rule_id content [] = Inr content"
| "embed_media env rule_id content (m # ms) =
     (case embed_one env rule_id content m of
        Inl e \<Rightarrow> Inl e
      | Inr content' \<Rightarrow> embed_media env rule_id content' ms)"

text \<open>
  A media item whose turn of the first pass appends its fragment: its type is there, and
  for an image \<^verbatim>\<open>settings.get_rule_media_path\<close> does not raise.
\<close>

definition appends_fragment :: "env \<Rightarrow> int \<Rightarrow> media \<Rightarrow> bool" where
  "appends_fragment env rule_id m =
     (case m_type m of
        None \<Rightarrow> False
      | Some t \<Rightarrow>
          if startswith t (lit ''image/'')
          then (case get_rule_media_path env rule_id of Inl e \<Rightarrow> False | Inr p \<Rightarrow> True)
          else True)"

section \<open>EntryBuilder: the body of an entry\<close>

text \<open>Lines 253 to 256: the placeholder sentence and the sentence that counts the media.\<close>

definition no_text_placeholder :: str where
  "no_text_placeholder =
     lit ''<p>'' @ [0x8BE5, 0x6D88, 0x606F, 0x6CA1, 0x6709, 0x6587, 0x672C, 0x5185, 0x5BB9, 0x3002] @ lit ''</p>''"

definition media_count_sentence :: "nat \<Rightarrow> str" where
  "media_count_sentence n =
     lit ''<p>'' @ [0x5305, 0x542B, 0x20] @ str_of_nat n @ [0x20, 0x4E2A, 0x5A92, 0x4F53, 0x6587, 0x4EF6, 0x3002]
     @ lit ''</p>''"

definition ensure_content :: "str \<Rightarrow> media list \<Rightarrow> str" where
  "ensure_content content ms =
     (if content = [] then
        (if ms \<noteq> [] \<and> 0 < length ms
         then no_text_placeholder @ media_count_sentence (length ms)
         else no_text_placeholder)
      else content)"

text \<open>Lines 265 to 270, for one paragraph.\<close>

definition wrap_paragraph :: "str \<Rightarrow> str" where
  "wrap_paragraph p =
     (case split_str p [nl] of
        [] \<Rightarrow> []
      | l # ls \<Rightarrow>
          lit ''<p>'' @ l
          @ concat (map (\<lambda>line. if strip line \<noteq> [] then lit ''<br>'' @ line else []) ls)
          @ lit ''</p>'')"

text \<open>Lines 259 to 271.\<close>

definition ensure_html :: "str \<Rightarrow> str" where
  "ensure_html content =
     (if startswith content (lit ''<'') then content
      else
        let paragraphs = split_str content [nl, nl];
            processed_content =
              concat (map (\<lambda>p. if strip p \<noteq> [] then wrap_paragraph p else []) paragraphs)
        in if processed_content \<noteq> [] then processed_content
           else lit ''<p>'' @ content @ lit ''</p>'')"

text \<open>
  The patterns of lines 274 and 275, tried at the head of a string. The greedy \<^verbatim>\<open>\s*\<close>
  takes the whole run of whitespace; giving a character back leaves whitespace where the
  tag must start, so only the whole run can match.
\<close>

definition match_br_br :: "str \<Rightarrow> (str \<times> nat) option" where
  "match_br_br s =
     (if prefix (lit ''<br>'') s then
        (if prefix (lit ''<br>'') (dropWhile isspace (drop 4 s))
         then Some (lit ''<br>'', 4 + length (takeWhile isspace (drop 4 s)) + 4)
         else None)
      else None)"

definition match_empty_p :: "str \<Rightarrow> (str \<times> nat) option" where
  "match_empty_p s =
     (if prefix (lit ''<p>'') s then
        (if prefix (lit ''</p>'') (dropWhile isspace (drop 3 s))
         then Some ([], 3 + length (takeWhile isspace (drop 3 s)) + 4)
         else None)
      else None)"

text \<open>Lines 274 to 276.\<close>

definition normalize_html :: "str \<Rightarrow> str" where
  "normalize_html content =
     (let content1 = sub_scan match_br_br 0 content;
          content2 = sub_scan match_empty_p 0 content1
      in sub_scan (match_literal (lit ''<p><br></p>'') (lit ''<p></p>'')) 0 content2)"

section \<open>MediaEmbedder: the second pass and the enclosures\<close>

record enclosure =
  enc_url :: str
  enc_length :: str
  enc_type :: str

text \<open>
  One turn of the loop of lines 280 to 303, on the content and the enclosures added so far.
  The turn is a \<^verbatim>\<open>try\<close> block of its own; where a statement raises, the handler logs and
  the loop goes on with what the turn had done until then.
  \<^item> line 287 reads \<^verbatim>\<open>media.type\<close>: absent, the turn ends with nothing done;
  \<^item> lines 287 to 290 append the image tag when the type is an image's and the address is
    not in the content;
  \<^item> line 294 formats \<^verbatim>\<open>media.type\<close> and \<^verbatim>\<open>media.size\<close> into the log message: with the
    size absent, the turn ends there;
  \<^item> lines 297 to 301 add the enclosure, asking \<^verbatim>\<open>hasattr\<close> for the size and the type.
\<close>

definition attach_one :: "env \<Rightarrow> int \<Rightarrow> media \<Rightarrow> str \<times> enclosure list \<Rightarrow> str \<times> enclosure list" where
  "attach_one env rule_id m acc =
     (case acc of (content, encs) \<Rightarrow>
        (case m_type m of
           None \<Rightarrow> (content, encs)
         | Some t \<Rightarrow>
             let url = full_media_url env rule_id m;
                 content' =
                   (if startswith t (lit ''image/'') \<and> \<not> contains content url
                    then content @ missing_img_tag url (m_filename m)
                    else content)
             in (case m_size m of
                   None \<Rightarrow> (content', encs)
                 | Some logged_size \<Rightarrow>
                     (content',
                      encs @ [\<lparr>enc_url = url,
                                enc_length = (case m_size m of Some n \<Rightarrow> str_of_int n | None \<Rightarrow> lit ''0''),
                                enc_type = (case m_type m of
                                              Some t' \<Rightarrow> t'
                                            | None \<Rightarrow> lit ''application/octet-stream'')\<rparr>]))))"

fun attach_media :: "env \<Rightarrow> int \<Rightarrow> media list \<Rightarrow> str \<times> enclosure list \<Rightarrow> str \<times> enclosure list" where
  "attach_media env rule_id [] acc = acc"
| "attach_media env rule_id (m # ms) acc = attach_media env rule_id ms (attach_one env rule_id m acc)"

text \<open>
  The media items for which the second pass reaches the enclosure, and the enclosure it
  adds for such an item, written with the defaults of lines 299 and 300.
\<close>

definition has_type_and_size :: "media \<Rightarrow> bool" where
  "has_type_and_size m = (m_type m \<noteq> None \<and> m_size m \<noteq> None)"

definition enclosure_of :: "env \<Rightarrow> int \<Rightarrow> media \<Rightarrow> enclosure" where
  "enclosure_of env rule_id m =
     \<lparr>enc_url = full_media_url env rule_id m,
      enc_length = (case m_size m of Some n \<Rightarrow> str_of_int n | None \<Rightarrow> lit ''0''),
      enc_type = (case m_type m of Some t \<Rightarrow> t | None \<Rightarrow> lit ''application/octet-stream'')\<rparr>"

text \<open>
  Lines 155 to 303: from the entry to the content and the enclosures, or the fault of the
  first pass.
\<close>

definition render_body :: "env \<Rightarrow> entry \<Rightarrow> fault + (str \<times> enclosure list)" where
  "render_body env e =
     (let extracted =
            extract_telegram_title_and_content (title_config env) (re_compile env)
              (Some (case e_content e of None \<Rightarrow> [] | Some c \<Rightarrow> c));
          content = convert_markdown_to_html (markdown env) (snd extracted)
      in (case embed_media env (e_rule_id e) content (e_media e) of
            Inl f \<Rightarrow> Inl f
          | Inr content1 \<Rightarrow>
              Inr (attach_media env (e_rule_id e) (e_media e)
                     (normalize_html (ensure_html (ensure_content content1 (e_media e))), []))))"

text \<open>Lines 155 to 160: the variable \<^verbatim>\<open>content\<close> as the first pass finds it.\<close>

definition rendered_text :: "env \<Rightarrow> entry \<Rightarrow> str" where
  "rendered_text env e =
     convert_markdown_to_html (markdown env)
       (snd (extract_telegram_title_and_content (title_config env) (re_compile env)
               (Some (case e_content e of None \<Rightarrow> [] | Some c \<Rightarrow> c))))"

section \<open>EntryBuilder: the feed entry\<close>

text \<open>
  The entry object of the feed library, as the fields its setters store. \<open>None\<close>: the
  setter was not called (or was called with \<^verbatim>\<open>None\<close>, which stores nothing).
\<close>

record feed_entry =
  fe_id :: "str option"
  fe_title :: "str option"
  fe_content :: "str option"
  fe_description :: "str option"
  fe_published :: "datetime option"
  fe_author :: "str option"
  fe_link :: "str option"
  fe_enclosures :: "enclosure list"

definition new_entry :: feed_entry where
  "new_entry =
     \<lparr>fe_id = None, fe_title = None, fe_content = None, fe_description = None,
      fe_published = None, fe_author = None, fe_link = None, fe_enclosures = []\<rparr>"

text \<open>\<^verbatim>\<open>entry.id or entry.message_id\<close>.\<close>

definition entry_id :: "entry \<Rightarrow> str option" where
  "entry_id e =
     (case e_id e of
        None \<Rightarrow> e_message_id e
      | Some i \<Rightarrow> if i = [] then e_message_id e else Some i)"

text \<open>
  Lines 312 to 317, for entry \<open>k\<close> of the list. The \<^verbatim>\<open>try\<close> block holds the parse and the
  setter call; its handler catches \<^verbatim>\<open>ValueError\<close>, whichever of the two raised it, and calls
  the setter with the current time. Another fault, and a fault of the handler's own setter
  call, leave the block.
\<close>

definition set_published :: "env \<Rightarrow> entry \<Rightarrow> nat \<Rightarrow> feed_entry \<Rightarrow> fault + feed_entry" where
  "set_published env e k fe =
     (let handler =
            (case published_rejects env (now_tz env k) of
               None \<Rightarrow> Inr (fe\<lparr>fe_published := Some (now_tz env k)\<rparr>)
             | Some f \<Rightarrow> Inl f)
      in (case fromisoformat env (e_published e) of
            Inl f \<Rightarrow> if f = ValueError then handler else Inl f
          | Inr published_dt \<Rightarrow>
              (case published_rejects env published_dt of
                 None \<Rightarrow> Inr (fe\<lparr>fe_published := Some published_dt\<rparr>)
               | Some f \<Rightarrow> if f = ValueError then handler else Inl f)))"

text \<open>Lines 320 to 324: the author and the link, when they are there and not empty.\<close>

definition set_author_link :: "entry \<Rightarrow> feed_entry \<Rightarrow> feed_entry" where
  "set_author_link e fe =
     (let fe1 = (case e_author e of
                   None \<Rightarrow> fe
                 | Some a \<Rightarrow> if a = [] then fe else fe\<lparr>fe_author := Some a\<rparr>)
      in (case e_link e of
            None \<Rightarrow> fe1
          | Some l \<Rightarrow> if l = [] then fe1 else fe1\<lparr>fe_link := Some l\<rparr>))"

text \<open>
  The \<^verbatim>\<open>try\<close> block of lines 150 to 324 for entry \<open>k\<close>, on the entry object that
  \<^verbatim>\<open>fg.add_entry()\<close> returned: the object as the block leaves it, and the fault when a
  statement raised (the handler of line 325 logs it and the loop goes on).
\<close>

definition build_entry :: "env \<Rightarrow> entry \<Rightarrow> nat \<Rightarrow> feed_entry \<times> fault option" where
  "build_entry env e k =
     (let extracted =
            extract_telegram_title_and_content (title_config env) (re_compile env)
              (Some (case e_content e of None \<Rightarrow> [] | Some c \<Rightarrow> c));
          fe1 = new_entry\<lparr>fe_id := entry_id e, fe_title := Some (fst extracted)\<rparr>
      in (case render_body env e of
            Inl f \<Rightarrow> (fe1, Some f)
          | Inr (content, encs) \<Rightarrow>
              let fe2 = fe1\<lparr>fe_enclosures := encs, fe_content := Some content,
                              fe_description := Some content\<rparr>
              in (case set_published env e k fe2 of
                    Inl f \<Rightarrow> (fe2, Some f)
                  | Inr fe3 \<Rightarrow> (set_author_link e fe3, None))))"

section \<open>FeedBuilder: generate_feed_from_entries and generate_test_feed\<close>

text \<open>
  The feed object: its title, description, link and language, and its list of entry
  objects. \<^verbatim>\<open>fg.add_entry()\<close> makes the entry object, puts it into the feed and returns it:
  the code calls nothing else to put an entry into the feed. Called without an order, as
  here, the feed library puts the object at the front of the list, so the list holds the
  entries from the last one made to the first.
\<close>

record feed =
  fg_title :: str
  fg_description :: str
  fg_link :: str
  fg_language :: str
  fg_entries :: "feed_entry list"

text \<open>\<^verbatim>\<open>_extract_chat_name(link)\<close>.\<close>

definition extract_chat_name :: "str option \<Rightarrow> str" where
  "extract_chat_name link =
     (case link of
        None \<Rightarrow> []
      | Some l \<Rightarrow>
          if l = [] \<or> \<not> contains l (lit ''t.me/'') then []
          else (case split_str l (lit ''t.me/'') of
                  a # b # rest \<Rightarrow> (case split_str b (lit ''/'') of [] \<Rightarrow> [] | c # cs \<Rightarrow> c)
                | _ \<Rightarrow> []))"

text \<open>
  The loop of lines 149 to 327, from entry \<open>k\<close> on, with the entry objects \<open>fes\<close> that the
  feed holds already: each turn makes the entry object at the front of the feed's list first
  and then runs the \<^verbatim>\<open>try\<close> block on it.
\<close>

fun add_entries :: "env \<Rightarrow> nat \<Rightarrow> entry list \<Rightarrow> feed_entry list \<Rightarrow> feed_entry list" where
  "add_entries env k [] fes = fes"
| "add_entries env k (e # es) fes = add_entries env (Suc k) es (fst (build_entry env e k) # fes)"

definition generate_feed_from_entries :: "env \<Rightarrow> int \<Rightarrow> entry list \<Rightarrow> feed" where
  "generate_feed_from_entries env rule_id entries =
     \<lparr>fg_title =
        (case entries of
           [] \<Rightarrow> lit ''TG Forwarder RSS - Rule '' @ str_of_int rule_id
         | first_entry # rest \<Rightarrow>
             let chat_name = extract_chat_name (e_link first_entry)
             in lit ''TG Forwarder - ''
                @ (if chat_name \<noteq> [] then chat_name else lit ''Rule '' @ str_of_int rule_id)),
      fg_description =
        (case entries of
           [] \<Rightarrow> lit ''TG Forwarder RSS Feed''
         | first_entry # rest \<Rightarrow>
             lit ''TG Forwarder RSS - '' @ [0x89C4, 0x5219] @ lit '' '' @ str_of_int rule_id
             @ lit '' '' @ [0x7684, 0x6D88, 0x606F]),
      fg_link = base_url env @ lit ''/rss/'' @ str_of_int rule_id,
      fg_language = lit ''zh-CN'',
      fg_entries = add_entries env 0 entries []\<rparr>"

text \<open>The body text of a test entry (line 423), with the formatted time of its making.\<close>

definition test_content :: "int \<Rightarrow> str \<Rightarrow> str" where
  "test_content rule_id made =
     [nl] @
     lit ''            <p>'' @ [0x8FD9, 0x662F, 0x4E00, 0x4E2A, 0x6D4B, 0x8BD5, 0x6761, 0x76EE, 0xFF0C, 0x7531, 0x7CFB, 0x7EDF, 0x81EA, 0x52A8, 0x751F, 0x6210, 0xFF0C, 0x56E0, 0x4E3A, 0x89C4, 0x5219] @ lit '' '' @ str_of_int rule_id @ lit '' '' @ [0x5F53, 0x524D, 0x6CA1, 0x6709, 0x4EFB, 0x4F55, 0x6D88, 0x606F, 0x6570, 0x636E, 0x3002] @ lit ''</p>'' @ [nl] @
     lit ''            <p>'' @ [0x5F53, 0x6709, 0x6D88, 0x606F, 0x88AB, 0x8F6C, 0x53D1, 0x65F6, 0xFF0C, 0x771F, 0x5B9E, 0x7684, 0x6761, 0x76EE, 0x5C06, 0x4F1A, 0x5728, 0x8FD9, 0x91CC, 0x663E, 0x793A, 0x3002] @ lit ''</p>'' @ [nl] @
     lit ''            <hr>'' @ [nl] @
     lit ''            <p>'' @ [0x6B64, 0x6D4B, 0x8BD5, 0x6761, 0x76EE, 0x751F, 0x6210, 0x4E8E] @ lit '': '' @ made @ lit ''</p>'' @ [nl] @
     lit ''            ''"

text \<open>
  One turn of the loop of lines 414 to 440, for \<open>i\<close>: the entry it makes, or the fault of
  the setter \<^verbatim>\<open>fe.published(dt)\<close>, which no handler catches here. The turn reads the clock
  twice: for the body text (call \<open>2 * (i - 1)\<close>) and for the published time (the call after it).
\<close>

definition test_entry :: "env \<Rightarrow> int \<Rightarrow> nat \<Rightarrow> fault + feed_entry" where
  "test_entry env rule_id i =
     (let entry_id = lit ''test-'' @ str_of_int rule_id @ lit ''-'' @ str_of_nat i;
          content = test_content rule_id (strftime env (now_local env (2 * (i - 1))));
          dt = minus_hours (now_local env (2 * (i - 1) + 1)) (int i)
      in (case published_rejects env dt of
            Some f \<Rightarrow> Inl f
          | None \<Rightarrow>
              Inr \<lparr>fe_id = Some entry_id,
                   fe_title = Some ([0x6D4B, 0x8BD5, 0x6761, 0x76EE] @ lit '' '' @ str_of_nat i @ lit '' - ''
                                    @ [0x89C4, 0x5219] @ lit '' '' @ str_of_int rule_id),
                   fe_content = Some content,
                   fe_description = Some content,
                   fe_published = Some dt,
                   fe_author = Some (lit ''TG Forwarder System''),
                   fe_link = Some (base_url env @ lit ''/rss/feed/'' @ str_of_int rule_id
                                   @ lit ''?entry='' @ entry_id),
                   fe_enclosures = []\<rparr>))"

text \<open>
  The loop over \<^verbatim>\<open>range(1, 4)\<close>, with the entry objects \<open>fes\<close> that the feed holds already:
  each entry is put at the front of the feed's list; the first fault leaves the function.
\<close>

fun test_entries :: "env \<Rightarrow> int \<Rightarrow> nat list \<Rightarrow> feed_entry list \<Rightarrow> fault + feed_entry list" where
  "test_entries env rule_id [] fes = Inr fes"
| "test_entries env rule_id (i # is) fes =
     (case test_entry env rule_id i of
        Inl f \<Rightarrow> Inl f
      | Inr fe \<Rightarrow> test_entries env rule_id is (fe # fes))"

definition generate_test_feed :: "env \<Rightarrow> int \<Rightarrow> fault + feed" where
  "generate_test_feed env rule_id =
     (case test_entries env rule_id [1, 2, 3] [] of
        Inl f \<Rightarrow> Inl f
      | Inr fes \<Rightarrow>
          Inr \<lparr>fg_title = lit ''TG Forwarder RSS - Rule '' @ str_of_int rule_id
                           @ lit '' ('' @ [0x6D4B, 0x8BD5, 0x6570, 0x636E] @ lit '')'',
               fg_description = lit ''TG Forwarder RSS - '' @ [0x89C4, 0x5219] @ lit '' '' @ str_of_int rule_id
                                 @ lit '' '' @ [0x7684, 0x6D4B, 0x8BD5, 0x6D88, 0x606F],
               fg_link = base_url env @ lit ''/rss/feed/'' @ str_of_int rule_id,
               fg_language = lit ''zh-CN'',
               fg_entries = fes\<rparr>)"

section \<open>An example configuration\<close>

text \<open>
  The pattern \<^verbatim>\<open>^\*\*(.+?)\*\*\<close> of the specification's scenario, matched at the start of
  the content: two asterisks, then group 1 taking as few characters (one at least, none a
  line break) as leave two asterisks behind it.
\<close>

fun until_stars :: "str \<Rightarrow> str \<Rightarrow> str option" where
  "until_stars acc [] = None"
| "until_stars acc (c # cs) =
     (if acc \<noteq> [] \<and> prefix (lit ''**'') (c # cs) then Some acc
      else if c = nl then None
      else until_stars (acc @ [c]) cs)"

definition match_bold_title :: compiled where
  "match_bold_title content =
     (if prefix (lit ''**'') content
      then (case until_stars [] (drop 2 content) of
              None \<Rightarrow> None
            | Some g \<Rightarrow> Some \<lparr>m_end = 2 + length g + 2, m_group1 = Group g\<rparr>)
      else None)"

definition bold_pattern :: str where
  "bold_pattern = lit ''^'' @ [92] @ lit ''*'' @ [92] @ lit ''*(.+?)'' @ [92] @ lit ''*'' @ [92] @ lit ''*''"

text \<open>A regular expression library that knows this one pattern.\<close>

definition example_engine :: regex_engine where
  "example_engine p = (if p = bold_pattern then Inr match_bold_title else Inl RegexError)"

definition example_patterns :: "pattern_info list" where
  "example_patterns = [\<lparr>pi_pattern = Some bold_pattern, pi_description = Some (lit ''bold title'')\<rparr>]"

text \<open>
  A content that the pattern matches: its group 1 holds emphasis marks, a link and a blank
  at either end, and whitespace follows the match.
\<close>

definition marked_content :: str where
  "marked_content = lit ''** *Hot* [news](http://x.y) **'' @ [nl] @ lit ''  Body''"

text \<open>
  Two contents that the pattern does not match: one without asterisks, and one that starts
  with two asterisks and has a line break before any closing pair.
\<close>

definition plain_content :: str where
  "plain_content = lit ''Hello world, this is a long message''"

definition starred_content :: str where
  "starred_content = lit ''** '' @ [nl] @ lit ''Hello'' @ [nl] @ lit ''world, this is a long message''"

text \<open>
  An environment: the markdown library raises, \<^verbatim>\<open>fromisoformat\<close> knows the timestamp of
  the specification's scenario, giving the naive datetime it denotes, and the same
  timestamp with an offset from UTC, and the setter
  \<^verbatim>\<open>fe.published\<close> raises \<^verbatim>\<open>ValueError\<close> for a datetime without \<^verbatim>\<open>tzinfo\<close>, as the feed
  library documents.
\<close>

definition example_env :: env where
  "example_env =
     \<lparr>HOST = lit ''localhost'', PORT = 8000,
      get_rule_media_path = (\<lambda>r. Inr (lit ''/data/media/'' @ str_of_int r)),
      title_config = Inr example_patterns,
      re_compile = example_engine,
      markdown = (\<lambda>t. Inl LibraryError),
      fromisoformat =
        (\<lambda>s. if s = lit ''2024-01-01T00:00:00''
             then Inr \<lparr>dt_micros = 1704067200000000, dt_tzinfo = None\<rparr>
             else if s = lit ''2024-01-01T00:00:00+08:00''
             then Inr \<lparr>dt_micros = 1704067200000000, dt_tzinfo = Some 480\<rparr>
             else Inl ValueError),
      published_rejects = (\<lambda>d. if dt_tzinfo d = None then Some ValueError else None),
      now_tz = (\<lambda>k. \<lparr>dt_micros = 1762214400000000 + int k, dt_tzinfo = Some 480\<rparr>),
      now_local = (\<lambda>k. \<lparr>dt_micros = 1762214400000000 + int k, dt_tzinfo = None\<rparr>),
      strftime = (\<lambda>d. lit ''2025-11-04 00:00:00'')\<rparr>"

text \<open>An image, and an entry whose one media item has no type attribute.\<close>

definition photo :: media where
  "photo = \<lparr>m_url = lit ''downloads/a.jpg'', m_type = Some (lit ''image/jpeg''), m_size = Some 1024,
            m_filename = lit ''a.jpg'', m_original_name = None\<rparr>"

definition broken_entry :: entry where
  "broken_entry =
     \<lparr>e_id = Some (lit ''42''), e_message_id = None, e_content = Some (lit ''hello''),
      e_media = [photo\<lparr>m_type := None\<rparr>], e_rule_id = 7,
      e_published = lit ''2024-01-01T00:00:00'', e_author = None, e_link = None\<rparr>"

text \<open>An entry with a given published string.\<close>

definition dated_entry :: "str \<Rightarrow> entry" where
  "dated_entry published =
     \<lparr>e_id = Some (lit ''44''), e_message_id = None, e_content = Some (lit ''hello''),
      e_media = [], e_rule_id = 7, e_published = published, e_author = None, e_link = None\<rparr>"

text \<open>
  The number of places of a string at which \<open>sub\<close> starts, and the opening of an image
  element whose source is \<open>url\<close>: an embed that refers to the address.
\<close>

fun count_occ :: "str \<Rightarrow> str \<Rightarrow> nat" where
  "count_occ [] sub = 0"
| "count_occ (c # cs) sub = (if prefix sub (c # cs) then 1 else 0) + count_occ cs sub"

definition img_ref :: "str \<Rightarrow> str" where
  \<open>img_ref url = lit ''<img src="'' @ url @ lit ''"''\<close>

text \<open>
  An entry with the image and no text, and one whose image has a display file name that
  closes the attribute and opens an image element of its own.
\<close>

definition photo_entry :: entry where
  "photo_entry =
     \<lparr>e_id = Some (lit ''45''), e_message_id = None, e_content = None, e_media = [photo],
      e_rule_id = 7, e_published = lit ''2024-01-01T00:00:00+08:00'', e_author = None,
      e_link = None\<rparr>"

definition crafted_photo :: media where
  \<open>crafted_photo =
     photo\<lparr>m_filename := lit ''a.jpg" /><img src="http://localhost:8000/media/7/a.jpg''\<rparr>\<close>

definition crafted_entry :: entry where
  "crafted_entry = photo_entry\<lparr>e_media := [crafted_photo]\<rparr>"

definition crafted_body :: str where
  \<open>crafted_body =
     lit ''<p><img src="http://localhost:8000/media/7/a.jpg" alt="a.jpg" /><img src="http://localhost:8000/media/7/a.jpg" style="max-width:100%;height:auto;display:block;" /></p>''\<close>

text \<open>
  The same environment with a \<^verbatim>\<open>settings.get_rule_media_path\<close> that raises, and an entry
  with the image whose text names the address the image is served at.
\<close>

definition offline_env :: env where
  "offline_env = example_env\<lparr>get_rule_media_path := (\<lambda>r. Inl OSError)\<rparr>"

definition linked_entry :: entry where
  "linked_entry = photo_entry\<lparr>e_content := Some (lit ''see http://localhost:8000/media/7/a.jpg'')\<rparr>"

definition linked_body :: str where
  "linked_body = lit ''<p>see http://localhost:8000/media/7/a.jpg  </p>''"

section \<open>Properties\<close>

subsection \<open>Strings\<close>

lemma str_replace_char_aux:
  "sub_scan (match_literal [a] [b]) 0 s = map (\<lambda>c. if c = a then b else c) s"
  by (induction s) (auto simp: match_literal_def)

lemma str_replace_char: "str_replace s [a] [b] = map (\<lambda>c. if c = a then b else c) s"
  by (simp add: str_replace_def str_replace_char_aux)

lemma lstrip_decomp: "\<exists>ws. s = ws @ lstrip s \<and> list_all isspace ws"
proof
  show "s = takeWhile isspace s @ lstrip s \<and> list_all isspace (takeWhile isspace s)"
    by (simp add: lstrip_def list_all_iff) (meson set_takeWhileD)
qed

lemma lstrip_no_leading_space: "lstrip s = [] \<or> \<not> isspace (hd (lstrip s))"
  unfolding lstrip_def by (metis hd_dropWhile)

subsection \<open>The cleaning of titles and contents\<close>

lemma str_replace_delete_aux:
  "sub_scan (match_literal [a] []) 0 s = filter (\<lambda>c. c \<noteq> a) s"
  by (induction s) (auto simp: match_literal_def)

lemma str_replace_delete: "str_replace s [a] [] = filter (\<lambda>c. c \<noteq> a) s"
  by (simp add: str_replace_def str_replace_delete_aux)

lemma match_md_link_group:
  "match_md_link s = Some (r, n) \<Longrightarrow> set r \<subseteq> set s"
  by (auto simp: match_md_link_def Let_def split: list.splits if_splits dest: set_takeWhileD)

lemma set_sub_scan_md_link: "set (sub_scan match_md_link k s) \<subseteq> set s"
proof (induction s arbitrary: k)
  case Nil
  then show ?case by simp
next
  case (Cons c cs)
  show ?case
  proof (cases "0 < k")
    case True
    then show ?thesis using Cons.IH[of "k - 1"] by auto
  next
    case False
    show ?thesis
    proof (cases "match_md_link (c # cs)")
      case None
      then show ?thesis using False Cons.IH[of 0] by auto
    next
      case (Some a)
      obtain r n where a: "a = (r, n)" by (cases a)
      have "set r \<subseteq> set (c # cs)" using match_md_link_group Some a by blast
      then show ?thesis using False Some a Cons.IH[of "n - 1"] by auto
    qed
  qed
qed

lemma span_until:
  "c \<notin> set t \<Longrightarrow>
     takeWhile (\<lambda>x. x \<noteq> c) (t @ c # r) = t \<and> dropWhile (\<lambda>x. x \<noteq> c) (t @ c # r) = c # r"
  by (induction t) auto

lemma match_md_link_hit:
  assumes "t \<noteq> []" and "ch CHR '']'' \<notin> set t" and "u \<noteq> []" and "ch CHR '')'' \<notin> set u"
  shows "match_md_link (ch CHR ''['' # t @ ch CHR '']'' # ch CHR ''('' # u @ ch CHR '')'' # post)
           = Some (t, length t + length u + 4)"
  using assms(1,3) span_until[OF assms(2), of "ch CHR ''('' # u @ ch CHR '')'' # post"]
    span_until[OF assms(4), of post]
  by (simp add: match_md_link_def)

lemma sub_scan_skip: "sub_scan m k (xs @ ys) = sub_scan m (k - length xs) ys" if "length xs \<le> k"
  using that by (induction xs arbitrary: k) auto

lemma sub_scan_md_link_copy:
  "ch CHR ''['' \<notin> set pre \<Longrightarrow> sub_scan match_md_link 0 (pre @ s) = pre @ sub_scan match_md_link 0 s"
  by (induction pre) (auto simp: match_md_link_def)

text \<open>
  The link pattern at work: in a text that has no opening bracket before it, a link
  \<^verbatim>\<open>[text](url)\<close> with a text free of closing brackets and an address free of closing
  parentheses is replaced by its text, and the scan goes on behind it.
\<close>

lemma sub_scan_md_link:
  assumes "ch CHR ''['' \<notin> set pre"
    and "t \<noteq> []" and "ch CHR '']'' \<notin> set t" and "u \<noteq> []" and "ch CHR '')'' \<notin> set u"
  shows "sub_scan match_md_link 0
           (pre @ ch CHR ''['' # t @ ch CHR '']'' # ch CHR ''('' # u @ ch CHR '')'' # post)
         = pre @ t @ sub_scan match_md_link 0 post"
proof -
  have "sub_scan match_md_link 0 (ch CHR ''['' # t @ ch CHR '']'' # ch CHR ''('' # u @ ch CHR '')'' # post)
          = t @ sub_scan match_md_link (length t + length u + 3)
                  ((t @ ch CHR '']'' # ch CHR ''('' # u @ [ch CHR '')'']) @ post)"
    using match_md_link_hit[OF assms(2-5), of post] by (simp add: ac_simps)
  also have "\<dots> = t @ sub_scan match_md_link 0 post"
    by (subst sub_scan_skip) simp_all
  finally show ?thesis
    using sub_scan_md_link_copy[OF assms(1)] by simp
qed

lemma set_strip: "set (strip s) \<subseteq> set s"
  unfolding strip_def rstrip_def lstrip_def
  by (metis (no_types, lifting) set_dropWhileD set_rev subsetI)

lemma strip_trimmed: "strip s = [] \<or> (\<not> isspace (hd (strip s)) \<and> \<not> isspace (last (strip s)))"
proof (cases "strip s = []")
  case True
  then show ?thesis by simp
next
  case False
  define x where "x = dropWhile isspace s"
  define y where "y = dropWhile isspace (rev x)"
  have s: "strip s = rev y" by (simp add: strip_def rstrip_def lstrip_def x_def y_def)
  then have y: "y \<noteq> []" using False by simp
  then have hy: "\<not> isspace (hd y)" unfolding y_def by (metis hd_dropWhile)
  have "rev x = takeWhile isspace (rev x) @ y" by (simp add: y_def)
  then have "last (rev x) = last y" using y by (metis last_appendR)
  moreover have x: "x \<noteq> []" using y y_def by auto
  ultimately have "last y = hd x" by (simp add: last_rev)
  moreover have "\<not> isspace (hd x)" using x unfolding x_def by (metis hd_dropWhile)
  ultimately have "\<not> isspace (hd (rev y))" using y by (simp add: hd_rev)
  moreover have "\<not> isspace (last (rev y))" using hy y by (simp add: last_rev)
  ultimately show ?thesis using s by simp
qed

lemma clean_title_eq:
  "clean_title g =
     (case g of
        None \<Rightarrow> []
      | Some t \<Rightarrow>
          strip (map (\<lambda>c. if c = nl then ch CHR '' '' else c)
                   (sub_scan match_md_link 0 (filter (\<lambda>c. c \<noteq> ch CHR ''*'') t))))"
proof -
  have a: "lit '' '' = [ch CHR '' '']" "lit ''*'' = [ch CHR ''*'']"
    by (simp_all add: lit_def ch_def)
  have "strip [] = []" by (simp add: strip_def rstrip_def lstrip_def)
  then show ?thesis
    by (auto simp: clean_title_def Let_def a str_replace_char str_replace_delete split: option.splits)
qed

lemma map_keeps_out:
  "a \<notin> set z \<Longrightarrow> a \<noteq> b \<Longrightarrow> a \<notin> set (map (\<lambda>c. if c = n then b else c) z)"
  "n \<noteq> b \<Longrightarrow> n \<notin> set (map (\<lambda>c. if c = n then b else c) z)"
  by auto

lemma clean_title_props:
  "ch CHR ''*'' \<notin> set (clean_title g)" "nl \<notin> set (clean_title g)"
  "clean_title g = [] \<or> (\<not> isspace (hd (clean_title g)) \<and> \<not> isspace (last (clean_title g)))"
proof -
  have d: "ch CHR ''*'' \<noteq> ch CHR '' ''" "nl \<noteq> ch CHR '' ''"
    by (simp_all add: ch_def nl_def)
  show "ch CHR ''*'' \<notin> set (clean_title g)"
  proof (cases g)
    case None
    then show ?thesis by (simp add: clean_title_eq)
  next
    case (Some t)
    have "ch CHR ''*'' \<notin> set (filter (\<lambda>c. c \<noteq> ch CHR ''*'') t)" by simp
    then have "ch CHR ''*'' \<notin> set (sub_scan match_md_link 0 (filter (\<lambda>c. c \<noteq> ch CHR ''*'') t))"
      using set_sub_scan_md_link by blast
    then have "ch CHR ''*'' \<notin> set (map (\<lambda>c. if c = nl then ch CHR '' '' else c)
                   (sub_scan match_md_link 0 (filter (\<lambda>c. c \<noteq> ch CHR ''*'') t)))"
      using d(1) by (rule map_keeps_out(1))
    then have "ch CHR ''*'' \<notin> set (strip (map (\<lambda>c. if c = nl then ch CHR '' '' else c)
                   (sub_scan match_md_link 0 (filter (\<lambda>c. c \<noteq> ch CHR ''*'') t))))"
      using set_strip by blast
    then show ?thesis unfolding clean_title_eq Some by simp
  qed
  show "nl \<notin> set (clean_title g)"
  proof (cases g)
    case None
    then show ?thesis by (simp add: clean_title_eq)
  next
    case (Some t)
    have "nl \<notin> set (map (\<lambda>c. if c = nl then ch CHR '' '' else c)
                   (sub_scan match_md_link 0 (filter (\<lambda>c. c \<noteq> ch CHR ''*'') t)))"
      using d(2) by (rule map_keeps_out(2))
    then have "nl \<notin> set (strip (map (\<lambda>c. if c = nl then ch CHR '' '' else c)
                   (sub_scan match_md_link 0 (filter (\<lambda>c. c \<noteq> ch CHR ''*'') t))))"
      using set_strip by blast
    then show ?thesis unfolding clean_title_eq Some by simp
  qed
  show "clean_title g = [] \<or> (\<not> isspace (hd (clean_title g)) \<and> \<not> isspace (last (clean_title g)))"
    by (cases g) (simp_all add: clean_title_eq strip_trimmed)
qed

text \<open>
  The two patterns of \<^verbatim>\<open>clean_content\<close> take characters from the front of the content
  only: one or two asterisks, and whitespace behind them. Behind the asterisks, the content
  and the cleaned content differ in leading whitespace at most.
\<close>

lemma isspace_nl_to_space: "isspace (if c = nl then ch CHR '' '' else c) = isspace c"
  by (simp add: isspace_def nl_def ch_def)

lemma lstrip_map_nl:
  "lstrip (map (\<lambda>c. if c = nl then ch CHR '' '' else c) s)
     = map (\<lambda>c. if c = nl then ch CHR '' '' else c) (lstrip s)"
  by (simp add: lstrip_def dropWhile_map comp_def isspace_nl_to_space)

lemma dropWhile_drop_run:
  "k \<le> length (takeWhile P x) \<Longrightarrow> dropWhile P (drop k x) = dropWhile P x"
  by (induction x arbitrary: k) (auto simp: drop_Cons split: nat.splits)

lemma lstrip_blank_lines: "lstrip (strip_leading_blank_lines s) = lstrip s"
  by (simp add: strip_leading_blank_lines_def Let_def lstrip_def dropWhile_drop_run)

lemma lstrip_leading_stars:
  "lstrip (strip_leading_stars s)
     = lstrip (if prefix (lit ''**'') s then drop 2 s
               else if prefix (lit ''*'') s then drop 1 s else s)"
  by (auto simp: strip_leading_stars_def lit_def ch_def lstrip_def split: list.splits)

lemma lstrip_clean_content:
  "lstrip (clean_content s)
     = lstrip (if prefix (lit ''**'') s then drop 2 s
               else if prefix (lit ''*'') s then drop 1 s else s)"
proof (cases "s = []")
  case True
  then show ?thesis by (simp add: clean_content_def)
next
  case False
  then show ?thesis
    using lstrip_leading_stars[of s] by (simp add: clean_content_def lstrip_blank_lines)
qed

lemma strip_map_clean_content:
  "strip (map (\<lambda>c. if c = nl then ch CHR '' '' else c) (clean_content s))
     = strip (map (\<lambda>c. if c = nl then ch CHR '' '' else c)
                (if prefix (lit ''**'') s then drop 2 s
                 else if prefix (lit ''*'') s then drop 1 s else s))"
  unfolding strip_def lstrip_map_nl lstrip_clean_content ..

subsection \<open>The title extractor\<close>

lemma try_patterns_passes:
  "list_all (passes re content) earlier \<Longrightarrow>
     try_patterns re (earlier @ rest) content = try_patterns re rest content"
  by (induction earlier) (auto simp: passes_def split: option.splits sum.splits)

text \<open>
  C4. For a content that is not empty, when the patterns before \<open>p\<close> in the configured
  order are passed (each compiles and does not match) and \<open>p\<close> matches at the start of the
  content, the title is the cleaned group 1: the empty string when the group took no part in
  the match, and else the group without its asterisks, with every link \<^verbatim>\<open>[text](url)\<close>
  replaced by its text, with line breaks turned into spaces, and trimmed. So the title holds
  no asterisk and no line break and neither starts nor ends with whitespace. The remainder
  is the content behind the end of the match with its leading whitespace stripped: the
  content is the matched prefix, then whitespace, then the remainder, and the remainder
  does not start with whitespace.
\<close>

theorem extract_first_match:
  assumes "content \<noteq> []"
    and "list_all (passes re content) earlier"
    and "pi_pattern p = Some pattern_str"
    and "pi_description p = Some pattern_desc"
    and "re pattern_str = Inr pattern"
    and "pattern content = Some m"
    and "group1 m = Inr g"
  shows "\<exists>title remainder ws.
           extract_telegram_title_and_content (Inr (earlier @ p # later)) re (Some content)
             = (title, remainder)
         \<and> title = clean_title g
         \<and> title = (case g of
                      None \<Rightarrow> []
                    | Some t \<Rightarrow>
                        strip (map (\<lambda>c. if c = nl then ch CHR '' '' else c)
                                 (sub_scan match_md_link 0 (filter (\<lambda>c. c \<noteq> ch CHR ''*'') t))))
         \<and> ch CHR ''*'' \<notin> set title
         \<and> nl \<notin> set title
         \<and> (title = [] \<or> (\<not> isspace (hd title) \<and> \<not> isspace (last title)))
         \<and> remainder = lstrip (drop (m_end m) content)
         \<and> content = take (m_end m) content @ ws @ remainder
         \<and> list_all isspace ws
         \<and> (remainder = [] \<or> \<not> isspace (hd remainder))"
proof -
  have "try_patterns re (earlier @ p # later) content
          = Inr (Some (clean_title g, lstrip (drop (m_end m) content)))"
    using assms by (simp add: try_patterns_passes)
  then have e: "extract_telegram_title_and_content (Inr (earlier @ p # later)) re (Some content)
          = (clean_title g, lstrip (drop (m_end m) content))"
    using assms(1) by (simp add: extract_telegram_title_and_content_def extract_try_def)
  obtain ws where w: "drop (m_end m) content = ws @ lstrip (drop (m_end m) content)"
    "list_all isspace ws"
    using lstrip_decomp by blast
  have c: "content = take (m_end m) content @ ws @ lstrip (drop (m_end m) content)"
    using w(1) by (metis append_take_drop_id)
  show ?thesis
    using e c w(2) clean_title_eq[of g] clean_title_props[of g]
      lstrip_no_leading_space[of "drop (m_end m) content"]
    by blast
qed

lemma marked_match:
  "match_bold_title marked_content
     = Some \<lparr>m_end = 30, m_group1 = Group (lit '' *Hot* [news](http://x.y) '')\<rparr>"
  by (simp add: match_bold_title_def marked_content_def lit_def nl_def)

lemma marked_title:
  "strip (map (\<lambda>c. if c = nl then ch CHR '' '' else c)
            (sub_scan match_md_link 0
               (filter (\<lambda>c. c \<noteq> ch CHR ''*'') (lit '' *Hot* [news](http://x.y) ''))))
     = lit ''Hot news''"
  by (simp add: match_md_link_def lit_def nl_def ch_def strip_def lstrip_def rstrip_def isspace_def)

lemma marked_remainder: "lstrip (drop 30 marked_content) = lit ''Body''"
  by (simp add: marked_content_def lit_def nl_def lstrip_def isspace_def)

theorem extract_first_match_witness:
  "marked_content \<noteq> []
 \<and> example_engine bold_pattern = Inr match_bold_title
 \<and> match_bold_title marked_content
      = Some \<lparr>m_end = 30, m_group1 = Group (lit '' *Hot* [news](http://x.y) '')\<rparr>
 \<and> extract_telegram_title_and_content (Inr example_patterns) example_engine (Some marked_content)
      = (lit ''Hot news'', lit ''Body'')"
proof -
  have c: "marked_content \<noteq> []" by (simp add: marked_content_def lit_def)
  have e: "example_engine bold_pattern = Inr match_bold_title" by (simp add: example_engine_def)
  have g: "group1 \<lparr>m_end = 30, m_group1 = Group (lit '' *Hot* [news](http://x.y) '')\<rparr>
             = Inr (Some (lit '' *Hot* [news](http://x.y) ''))"
    by (simp add: group1_def)
  have l: "list_all (passes example_engine marked_content) []" by simp
  have p: "pi_pattern \<lparr>pi_pattern = Some bold_pattern, pi_description = Some (lit ''bold title'')\<rparr>
             = Some bold_pattern"
    "pi_description \<lparr>pi_pattern = Some bold_pattern, pi_description = Some (lit ''bold title'')\<rparr>
             = Some (lit ''bold title'')"
    by simp_all
  note th = extract_first_match[where later = "[]", OF c l p e marked_match g]
  from th obtain title remainder where
    "extract_telegram_title_and_content
       (Inr ([] @ \<lparr>pi_pattern = Some bold_pattern, pi_description = Some (lit ''bold title'')\<rparr> # []))
       example_engine (Some marked_content) = (title, remainder)"
    and "title = (case Some (lit '' *Hot* [news](http://x.y) '') of
                    None \<Rightarrow> []
                  | Some t \<Rightarrow>
                      strip (map (\<lambda>c. if c = nl then ch CHR '' '' else c)
                               (sub_scan match_md_link 0 (filter (\<lambda>c. c \<noteq> ch CHR ''*'') t))))"
    and "remainder
           = lstrip (drop (m_end \<lparr>m_end = 30, m_group1 = Group (lit '' *Hot* [news](http://x.y) '')\<rparr>)
                       marked_content)"
    by (elim conjE exE)
  then have "extract_telegram_title_and_content (Inr example_patterns) example_engine (Some marked_content)
               = (lit ''Hot news'', lit ''Body'')"
    by (simp add: example_patterns_def marked_title marked_remainder)
  then show ?thesis using c e marked_match by simp
qed

lemma default_title_eq:
  "default_title content =
     take 20 (strip (map (\<lambda>c. if c = nl then ch CHR '' '' else c) (clean_content content)))
     @ (if 20 < length (strip (map (\<lambda>c. if c = nl then ch CHR '' '' else c) (clean_content content)))
        then lit ''...'' else [])"
proof -
  have "lit '' '' = [ch CHR '' '']" by (simp add: lit_def ch_def)
  then show ?thesis
    by (simp add: default_title_def Let_def str_replace_char)
qed

text \<open>
  C5. For a content that is not empty and that no configured pattern matches (each
  compiles and does not match), the title is made from the cleaned content, with line
  breaks turned into spaces and trimmed: its first 20 characters, followed by the ellipsis
  exactly when it has more than 20 characters. Cleaning takes one or two asterisks and the
  whitespace behind them from the front of the content, so the trimmed text is that of the
  content without its one or two leading asterisks. The title has at most 23 characters,
  holds no line break and does not start with whitespace; and the remainder is the content
  as it was given.
\<close>

theorem extract_no_match:
  assumes "content \<noteq> []"
    and "list_all (passes re content) patterns"
  shows "\<exists>unstarred clean title.
           unstarred = (if prefix (lit ''**'') content then drop 2 content
                        else if prefix (lit ''*'') content then drop 1 content else content)
         \<and> clean = strip (map (\<lambda>c. if c = nl then ch CHR '' '' else c) (clean_content content))
         \<and> clean = strip (map (\<lambda>c. if c = nl then ch CHR '' '' else c) unstarred)
         \<and> title = take 20 clean @ (if 20 < length clean then lit ''...'' else [])
         \<and> extract_telegram_title_and_content (Inr patterns) re (Some content) = (title, content)
         \<and> length title \<le> 23
         \<and> nl \<notin> set title
         \<and> (title = [] \<or> \<not> isspace (hd title))"
proof -
  define unstarred where "unstarred = (if prefix (lit ''**'') content then drop 2 content
                        else if prefix (lit ''*'') content then drop 1 content else content)"
  define clean where "clean = strip (map (\<lambda>c. if c = nl then ch CHR '' '' else c) (clean_content content))"
  define title where "title = take 20 clean @ (if 20 < length clean then lit ''...'' else [])"
  have u: "clean = strip (map (\<lambda>c. if c = nl then ch CHR '' '' else c) unstarred)"
    unfolding clean_def unstarred_def by (rule strip_map_clean_content)
  have "try_patterns re patterns content = Inr None"
    using try_patterns_passes[OF assms(2), of "[]"] by simp
  then have e: "extract_telegram_title_and_content (Inr patterns) re (Some content) = (title, content)"
    using assms(1)
    by (simp add: extract_telegram_title_and_content_def extract_try_def default_title_eq
        title_def clean_def)
  have d: "length (lit ''...'') = 3" "nl \<notin> set (lit ''...'')"
    by (simp_all add: lit_def nl_def)
  have l: "length title \<le> 23"
    unfolding title_def using d(1) by simp
  have "nl \<noteq> ch CHR '' ''" by (simp add: nl_def ch_def)
  then have "nl \<notin> set (map (\<lambda>c. if c = nl then ch CHR '' '' else c) unstarred)"
    by (rule map_keeps_out(2))
  then have "nl \<notin> set clean"
    unfolding u using set_strip by blast
  then have "nl \<notin> set (take 20 clean)"
    by (meson in_set_takeD)
  then have n: "nl \<notin> set title"
    unfolding title_def using d(2) by simp
  have h: "title = [] \<or> \<not> isspace (hd title)"
  proof (cases "clean = []")
    case True
    then show ?thesis by (simp add: title_def)
  next
    case False
    then have "\<not> isspace (hd clean)"
      using strip_trimmed[of "map (\<lambda>c. if c = nl then ch CHR '' '' else c) unstarred"]
      unfolding u by blast
    moreover have "hd title = hd clean"
      using False by (cases clean) (simp_all add: title_def)
    ultimately show ?thesis by simp
  qed
  show ?thesis
    using unstarred_def clean_def u title_def e l n h by blast
qed

lemma plain_passes: "list_all (passes example_engine plain_content) example_patterns"
  by (simp add: passes_def example_patterns_def example_engine_def match_bold_title_def
      plain_content_def lit_def)

lemma starred_passes: "list_all (passes example_engine starred_content) example_patterns"
  by (simp add: passes_def example_patterns_def example_engine_def match_bold_title_def
      starred_content_def lit_def nl_def)

lemma starred_clean:
  "strip (map (\<lambda>c. if c = nl then ch CHR '' '' else c) (drop 2 starred_content))
     = lit ''Hello world, this is a long message''"
  by (simp add: starred_content_def lit_def ch_def nl_def strip_def lstrip_def rstrip_def isspace_def)

theorem extract_no_match_witness:
  "starred_content \<noteq> []
 \<and> list_all (passes example_engine starred_content) example_patterns
 \<and> extract_telegram_title_and_content (Inr example_patterns) example_engine (Some starred_content)
      = (lit ''Hello world, this is...'', starred_content)"
proof -
  have c: "starred_content \<noteq> []" by (simp add: starred_content_def lit_def)
  have p: "prefix (lit ''**'') starred_content" by (simp add: starred_content_def lit_def)
  have t: "take 20 (lit ''Hello world, this is a long message'')
             @ (if 20 < length (lit ''Hello world, this is a long message'') then lit ''...'' else [])
           = lit ''Hello world, this is...''"
    by (simp add: lit_def)
  note th = extract_no_match[OF c starred_passes]
  from th obtain unstarred clean title where
    "unstarred = (if prefix (lit ''**'') starred_content then drop 2 starred_content
                  else if prefix (lit ''*'') starred_content then drop 1 starred_content
                  else starred_content)"
    and "clean = strip (map (\<lambda>c. if c = nl then ch CHR '' '' else c) unstarred)"
    and "title = take 20 clean @ (if 20 < length clean then lit ''...'' else [])"
    and "extract_telegram_title_and_content (Inr example_patterns) example_engine (Some starred_content)
           = (title, starred_content)"
    by (elim conjE exE)
  then have "extract_telegram_title_and_content (Inr example_patterns) example_engine (Some starred_content)
               = (lit ''Hello world, this is...'', starred_content)"
    using p by (simp add: starred_clean t)
  then show ?thesis using c starred_passes by simp
qed

lemma try_patterns_faulty:
  "faulty re content p \<Longrightarrow> \<exists>e. try_patterns re (p # later) content = Inl e"
  by (auto simp: faulty_def group1_def split: option.splits sum.splits rgroup.splits)

text \<open>
  C6. The extraction returns a pair for every input. For an absent and for an empty
  content it returns the pair of empty strings. When the configuration cannot be read, when
  the loop reaches a pattern record with a missing key, a pattern that does not compile or a
  match without group 1, and for every other fault of the \<^verbatim>\<open>try\<close> block, it returns the
  empty title and the content as it was given.
\<close>

theorem extract_never_raises:
  "extract_telegram_title_and_content cfg re None = ([], [])
 \<and> extract_telegram_title_and_content cfg re (Some []) = ([], [])
 \<and> extract_telegram_title_and_content (Inl e) re (Some content) = ([], content)
 \<and> (list_all (passes re content) earlier \<and> faulty re content p \<longrightarrow>
      extract_telegram_title_and_content (Inr (earlier @ p # later)) re (Some content) = ([], content))
 \<and> (extract_try cfg re content = Inl e \<longrightarrow>
      extract_telegram_title_and_content cfg re (Some content) = ([], content))"
proof -
  have "extract_telegram_title_and_content (Inr (earlier @ p # later)) re (Some content) = ([], content)"
    if a: "list_all (passes re content) earlier" and b: "faulty re content p"
  proof -
    obtain e' where "try_patterns re (earlier @ p # later) content = Inl e'"
      using try_patterns_faulty[OF b] try_patterns_passes[OF a] by metis
    then show ?thesis
      by (simp add: extract_telegram_title_and_content_def extract_try_def)
  qed
  then show ?thesis
    by (auto simp: extract_telegram_title_and_content_def extract_try_def)
qed

theorem extract_never_raises_witness:
  "faulty example_engine plain_content \<lparr>pi_pattern = Some (lit ''(''), pi_description = Some (lit ''broken'')\<rparr>
 \<and> extract_telegram_title_and_content (Inl OSError) example_engine (Some plain_content)
      = ([], plain_content)
 \<and> extract_telegram_title_and_content
      (Inr (example_patterns @ \<lparr>pi_pattern = Some (lit ''(''), pi_description = Some (lit ''broken'')\<rparr> # []))
      example_engine (Some plain_content) = ([], plain_content)
 \<and> extract_try (Inl OSError) example_engine plain_content = Inl OSError"
proof -
  have f: "faulty example_engine plain_content
             \<lparr>pi_pattern = Some (lit ''(''), pi_description = Some (lit ''broken'')\<rparr>"
    by (simp add: faulty_def example_engine_def bold_pattern_def lit_def)
  have t: "extract_try (Inl OSError) example_engine plain_content = Inl OSError"
    by (simp add: extract_try_def)
  show ?thesis
    using extract_never_raises[of "Inl OSError" example_engine OSError plain_content example_patterns
        "\<lparr>pi_pattern = Some (lit ''(''), pi_description = Some (lit ''broken'')\<rparr>" "[]"]
      f t plain_passes
    by simp
qed

subsection \<open>The renderer\<close>

text \<open>
  When the markdown library raises on a text of one line that does not start with
  \<^verbatim>\<open>#\<close>, the result is the text with two spaces behind it, in one paragraph.
\<close>

lemma sub_scan_no_nl:
  "nl \<notin> set s \<Longrightarrow> sub_scan (match_nl_run r) 0 s = s"
  by (induction s) (auto simp: match_nl_run_def)

lemma split_scan_no_nl:
  "nl \<notin> set s \<Longrightarrow> split_scan [nl] 0 cur s = [rev cur @ s]"
  by (induction s arbitrary: cur) auto

lemma str_replace_no_nl:
  "nl \<notin> set s \<Longrightarrow> str_replace s [nl] x = s"
  unfolding str_replace_def by (induction s) (auto simp: match_literal_def)

lemma fallback_one_line:
  assumes "text \<noteq> []" and "nl \<notin> set text" and "\<not> startswith text (lit ''#'')"
    and "md (text @ lit ''  '') = Inl e"
  shows "convert_markdown_to_html md text = lit ''<p>'' @ text @ lit ''  '' @ lit ''</p>''"
proof -
  have p: "preprocess_markdown text = text @ lit ''  ''"
    using assms(2,3) by (simp add: preprocess_markdown_def sub_scan_no_nl split_str_def split_scan_no_nl)
  have "nl \<notin> set (text @ lit ''  '')"
    using assms(2) by (simp add: lit_def nl_def)
  then have "fallback_html (text @ lit ''  '') = lit ''<p>'' @ (text @ lit ''  '') @ lit ''</p>''"
    by (simp add: fallback_html_def sub_scan_no_nl str_replace_no_nl del: append_assoc)
  then show ?thesis
    using assms(1,4) by (simp add: convert_markdown_to_html_def p)
qed

text \<open>
  C7. The rendering of the empty string is the empty string, and the model returns a string
  for every input. When the markdown library raises, though, the handler renders the
  preprocessed text: for \<^verbatim>\<open>a\n\nb\<close> the result keeps the paragraph marker and the two
  spaces behind every line and has no paragraph boundary, where the fallback rule applied
  to the input gives \<^verbatim>\<open><p>a</p><p>b</p>\<close>; for \<^verbatim>\<open>a\<close> it is \<^verbatim>\<open><p>a  </p>\<close>.
\<close>

theorem fallback_renders_preprocessed_text:
  "convert_markdown_to_html (\<lambda>t. Inl LibraryError) (lit ''a'' @ [nl, nl] @ lit ''b'')
     = lit ''<p>a  <br>  <br><!-- paragraph -->  <br>  <br>b  </p>''
 \<and> fallback_html (lit ''a'' @ [nl, nl] @ lit ''b'') = lit ''<p>a</p><p>b</p>''
 \<and> convert_markdown_to_html (\<lambda>t. Inl LibraryError) (lit ''a'') = lit ''<p>a  </p>''
 \<and> convert_markdown_to_html md [] = []"
  by (simp add: convert_markdown_to_html_def preprocess_markdown_def fallback_html_def
      match_nl_run_def split_str_def join.simps str_replace_def match_literal_def startswith_def
      lit_def nl_def)

subsection \<open>The enclosures\<close>

lemma attach_one_enclosures:
  "snd (attach_one env rule_id m (content, encs))
     = encs @ (if has_type_and_size m then [enclosure_of env rule_id m] else [])"
  by (auto simp: attach_one_def has_type_and_size_def enclosure_of_def Let_def split: option.splits)

lemma attach_media_enclosures:
  "snd (attach_media env rule_id ms acc)
     = snd acc @ map (enclosure_of env rule_id) (filter has_type_and_size ms)"
proof (induction ms arbitrary: acc)
  case Nil
  then show ?case by simp
next
  case (Cons m ms)
  obtain content encs where acc: "acc = (content, encs)" by (cases acc)
  show ?case
    using Cons.IH[of "attach_one env rule_id m acc"] attach_one_enclosures[of env rule_id m content encs]
    by (simp add: acc)
qed

text \<open>
  C9. The second pass adds one enclosure, with the derived address, the size and the type,
  for every media item that has both its type and its size, in order, whatever the other
  items are: a fault at one item does not stop the others. For an item without the size
  attribute, and for one without the type attribute, it adds no enclosure: the defaults
  \<^verbatim>\<open>"0"\<close> and \<^verbatim>\<open>application/octet-stream\<close> are never used. An item without the type
  attribute ends the whole entry in the first pass.
\<close>

theorem enclosures_only_with_type_and_size:
  "snd (attach_media env rule_id ms (content, []))
     = map (enclosure_of env rule_id) (filter has_type_and_size ms)
 \<and> snd (attach_media env rule_id [m\<lparr>m_size := None\<rparr>] (content, [])) = []
 \<and> snd (attach_media env rule_id [m\<lparr>m_type := None\<rparr>] (content, [])) = []
 \<and> render_body env (e\<lparr>e_media := [m\<lparr>m_type := None\<rparr>]\<rparr>) = Inl AttributeError"
  by (simp add: attach_media_enclosures attach_one_enclosures has_type_and_size_def
      render_body_def embed_one_def)

subsection \<open>The first pass\<close>

lemma fragments_not_empty:
  "img_tag url f \<noteq> []" "video_player url t n \<noteq> []" "audio_player url t n \<noteq> []"
  "file_tag url n \<noteq> []"
  by (simp_all add: img_tag_def video_player_def audio_player_def file_tag_def lit_def)

lemma embed_one_appends:
  assumes "appends_fragment env rule_id m"
  shows "\<exists>frag. frag \<noteq> [] \<and> embed_one env rule_id content m = Inr (content @ frag)"
  using assms fragments_not_empty
  by (auto simp: appends_fragment_def embed_one_def split: option.splits sum.splits if_splits)

lemma embed_media_appends:
  "list_all (appends_fragment env rule_id) ms \<Longrightarrow>
     \<exists>frags. embed_media env rule_id content ms = Inr (content @ frags) \<and> (ms \<noteq> [] \<longrightarrow> frags \<noteq> [])"
proof (induction ms arbitrary: content)
  case Nil
  then show ?case by simp
next
  case (Cons m ms)
  from Cons.prems have m: "appends_fragment env rule_id m"
    and ms: "list_all (appends_fragment env rule_id) ms"
    by simp_all
  obtain frag where f: "frag \<noteq> []" "embed_one env rule_id content m = Inr (content @ frag)"
    using embed_one_appends[OF m] by blast
  obtain frags where "embed_media env rule_id (content @ frag) ms = Inr ((content @ frag) @ frags)"
    using Cons.IH[OF ms] by blast
  then have "embed_media env rule_id content (m # ms) = Inr (content @ (frag @ frags))"
    using f by simp
  then show ?case using f(1) by (metis Nil_is_append_conv)
qed

lemma ensure_content_nonempty: "c \<noteq> [] \<Longrightarrow> ensure_content c ms = c"
  by (simp add: ensure_content_def)

text \<open>
  C10. When every media item of an entry appends its fragment in the first pass, the pass
  returns a content; with a media list that is not empty this content is not empty and the
  emptiness check of lines 253 to 256 leaves it as it is (neither the placeholder nor the
  sentence that counts the media is put in); and the check changes the content only when
  the media list and the rendered content \<open>html\<close> are both empty.
\<close>

theorem media_fragments_make_content_nonempty:
  assumes "list_all (appends_fragment env rule_id) ms"
  shows "\<exists>c. embed_media env rule_id html ms = Inr c
         \<and> (ms \<noteq> [] \<longrightarrow> c \<noteq> [] \<and> ensure_content c ms = c)
         \<and> (ensure_content c ms \<noteq> c \<longrightarrow> ms = [] \<and> html = [])"
proof -
  obtain frags where f: "embed_media env rule_id html ms = Inr (html @ frags)"
    and n: "ms \<noteq> [] \<longrightarrow> frags \<noteq> []"
    using embed_media_appends[OF assms] by blast
  show ?thesis
  proof (cases "html @ frags = []")
    case True
    then have "ms = []" and "html = []" using n by auto
    then show ?thesis using f True by auto
  next
    case False
    then have "ensure_content (html @ frags) ms = html @ frags"
      by (rule ensure_content_nonempty)
    with f False show ?thesis by blast
  qed
qed

theorem media_fragments_make_content_nonempty_witness:
  "list_all (appends_fragment example_env 7) [photo]
 \<and> embed_media example_env 7 [] [photo]
      = Inr (img_tag (lit ''http://localhost:8000/media/7/a.jpg'') (lit ''a.jpg''))
 \<and> ensure_content (img_tag (lit ''http://localhost:8000/media/7/a.jpg'') (lit ''a.jpg'')) [photo]
      = img_tag (lit ''http://localhost:8000/media/7/a.jpg'') (lit ''a.jpg'')"
proof -
  have a: "list_all (appends_fragment example_env 7) [photo]"
    by (simp add: appends_fragment_def photo_def example_env_def startswith_def lit_def)
  have u: "full_media_url example_env 7 photo = lit ''http://localhost:8000/media/7/a.jpg''"
    by (simp add: full_media_url_def base_url_def media_filename_def split_str_def photo_def
        example_env_def str_of_int_def lit_def)
  have p: "m_type photo = Some (lit ''image/jpeg'')" "m_filename photo = lit ''a.jpg''"
    by (simp_all add: photo_def)
  have g: "get_rule_media_path example_env 7 = Inr (lit ''/data/media/'' @ str_of_int 7)"
    by (simp add: example_env_def)
  have i: "startswith (lit ''image/jpeg'') (lit ''image/'')"
    by (simp add: startswith_def lit_def)
  have e: "embed_media example_env 7 [] [photo]
      = Inr (img_tag (lit ''http://localhost:8000/media/7/a.jpg'') (lit ''a.jpg''))"
    by (simp add: embed_one_def u p g i)
  show ?thesis
    using media_fragments_make_content_nonempty[OF a, of "[]"] a e by auto
qed

subsection \<open>The feed\<close>

lemma length_add_entries: "length (add_entries env k es fes) = length fes + length es"
  by (induction es arbitrary: k fes) auto

text \<open>
  C1. The feed holds one entry object for every entry of the list, whether its
  \<^verbatim>\<open>try\<close> block raised or not: the object is put into the feed before the block runs.
  For the entry whose media item has no type attribute the block raises
  \<^verbatim>\<open>AttributeError\<close> in the first pass, and the feed holds its entry object with the id and
  the title only.
\<close>

theorem failed_entry_stays_in_feed:
  "length (fg_entries (generate_feed_from_entries env rule_id entries)) = length entries
 \<and> snd (build_entry example_env broken_entry 0) = Some AttributeError
 \<and> fg_entries (generate_feed_from_entries example_env 7 [broken_entry])
      = [new_entry\<lparr>fe_id := Some (lit ''42''), fe_title := Some (lit ''hello'')\<rparr>]"
proof -
  have r: "render_body example_env broken_entry = Inl AttributeError"
    by (simp add: render_body_def broken_entry_def embed_one_def)
  have t: "extract_telegram_title_and_content (title_config example_env) (re_compile example_env)
             (Some (lit ''hello'')) = (lit ''hello'', lit ''hello'')"
    by (simp add: extract_telegram_title_and_content_def extract_try_def example_env_def
        example_patterns_def example_engine_def match_bold_title_def default_title_def
        clean_content_def strip_leading_stars_def strip_leading_blank_lines_def
        str_replace_def match_literal_def strip_def lstrip_def rstrip_def isspace_def
        group1_def lit_def ch_def nl_def)
  have b: "build_entry example_env broken_entry 0
             = (new_entry\<lparr>fe_id := Some (lit ''42''), fe_title := Some (lit ''hello'')\<rparr>, Some AttributeError)"
    using t by (simp add: build_entry_def r) (simp add: broken_entry_def entry_id_def lit_def)
  show ?thesis
    by (simp add: generate_feed_from_entries_def length_add_entries b)
qed

subsection \<open>The published time\<close>

text \<open>
  C3. The published string is parsed, and the parsed datetime becomes the published time
  when the setter of the feed library stores it. When the string cannot be parsed
  (\<^verbatim>\<open>ValueError\<close>), the current time in the configured time zone is stored and nothing is
  raised. The handler catches the setter's \<^verbatim>\<open>ValueError\<close> as well: a string that parses to
  a datetime the setter rejects with \<^verbatim>\<open>ValueError\<close> is replaced by the current time too, and
  the parsed instant is lost.
\<close>

theorem published_time_of_entry:
  "(fromisoformat env (e_published e) = Inr dt \<and> published_rejects env dt = None \<longrightarrow>
      set_published env e k fe = Inr (fe\<lparr>fe_published := Some dt\<rparr>))
 \<and> (fromisoformat env (e_published e) = Inl ValueError \<and> published_rejects env (now_tz env k) = None \<longrightarrow>
      set_published env e k fe = Inr (fe\<lparr>fe_published := Some (now_tz env k)\<rparr>))
 \<and> (fromisoformat env (e_published e) = Inr dt \<and> published_rejects env dt = Some ValueError
      \<and> published_rejects env (now_tz env k) = None \<longrightarrow>
      set_published env e k fe = Inr (fe\<lparr>fe_published := Some (now_tz env k)\<rparr>))"
  by (simp add: set_published_def)

theorem published_time_of_entry_witness:
  "fromisoformat example_env (lit ''2024-01-01T00:00:00'')
     = Inr \<lparr>dt_micros = 1704067200000000, dt_tzinfo = None\<rparr>
 \<and> published_rejects example_env \<lparr>dt_micros = 1704067200000000, dt_tzinfo = None\<rparr> = Some ValueError
 \<and> set_published example_env (dated_entry (lit ''2024-01-01T00:00:00'')) 0 new_entry
     = Inr (new_entry\<lparr>fe_published := Some \<lparr>dt_micros = 1762214400000000, dt_tzinfo = Some 480\<rparr>\<rparr>)
 \<and> set_published example_env (dated_entry (lit ''not-a-date'')) 0 new_entry
     = Inr (new_entry\<lparr>fe_published := Some \<lparr>dt_micros = 1762214400000000, dt_tzinfo = Some 480\<rparr>\<rparr>)
 \<and> set_published example_env (dated_entry (lit ''2024-01-01T00:00:00+08:00'')) 0 new_entry
     = Inr (new_entry\<lparr>fe_published := Some \<lparr>dt_micros = 1704067200000000, dt_tzinfo = Some 480\<rparr>\<rparr>)"
proof -
  have n: "now_tz example_env 0 = \<lparr>dt_micros = 1762214400000000, dt_tzinfo = Some 480\<rparr>"
    "published_rejects example_env (now_tz example_env 0) = None"
    by (simp_all add: example_env_def)
  have a: "fromisoformat example_env (e_published (dated_entry (lit ''2024-01-01T00:00:00'')))
             = Inr \<lparr>dt_micros = 1704067200000000, dt_tzinfo = None\<rparr>"
    "published_rejects example_env \<lparr>dt_micros = 1704067200000000, dt_tzinfo = None\<rparr> = Some ValueError"
    by (simp_all add: example_env_def dated_entry_def)
  have b: "fromisoformat example_env (e_published (dated_entry (lit ''not-a-date''))) = Inl ValueError"
    by (simp add: example_env_def dated_entry_def lit_def)
  have c: "fromisoformat example_env (e_published (dated_entry (lit ''2024-01-01T00:00:00+08:00'')))
             = Inr \<lparr>dt_micros = 1704067200000000, dt_tzinfo = Some 480\<rparr>"
    "published_rejects example_env \<lparr>dt_micros = 1704067200000000, dt_tzinfo = Some 480\<rparr> = None"
    by (simp_all add: example_env_def dated_entry_def lit_def)
  show ?thesis
    using published_time_of_entry[of example_env "dated_entry (lit ''2024-01-01T00:00:00'')"
        "\<lparr>dt_micros = 1704067200000000, dt_tzinfo = None\<rparr>" 0 new_entry]
      published_time_of_entry[of example_env "dated_entry (lit ''not-a-date'')" _ 0 new_entry]
      published_time_of_entry[of example_env "dated_entry (lit ''2024-01-01T00:00:00+08:00'')"
        "\<lparr>dt_micros = 1704067200000000, dt_tzinfo = Some 480\<rparr>" 0 new_entry]
      n a b c
    by (simp add: dated_entry_def)
qed

subsection \<open>The empty list and the test feed\<close>



text \<open>
  The placeholder entries are the work of \<^verbatim>\<open>generate_test_feed\<close>, which
  \<^verbatim>\<open>generate_feed_from_entries\<close> does not call. Its published times are readings of
  \<^verbatim>\<open>datetime.now()\<close>, which have no time zone, and its call of the setter \<^verbatim>\<open>fe.published\<close>
  has no handler. With a setter that raises \<^verbatim>\<open>ValueError\<close> for a datetime without
  \<^verbatim>\<open>tzinfo\<close>, as the feed library's does, the first turn of the loop raises and no feed is
  returned.
\<close>

lemma test_feed_raises_for_naive_clock:
  assumes "dt_tzinfo (now_local env 1) = None"
    and "\<And>d. dt_tzinfo d = None \<Longrightarrow> published_rejects env d = Some ValueError"
  shows "generate_test_feed env rule_id = Inl ValueError"
proof -
  have "dt_tzinfo (minus_hours (now_local env 1) 1) = None"
    using assms(1) by (simp add: minus_hours_def)
  then have "published_rejects env (minus_hours (now_local env 1) 1) = Some ValueError"
    by (rule assms(2))
  then have "test_entry env rule_id 1 = Inl ValueError"
    by (simp add: test_entry_def Let_def)
  then show ?thesis
    by (simp add: generate_test_feed_def)
qed

lemma test_feed_raises_example: "generate_test_feed example_env 7 = Inl ValueError"
  by (rule test_feed_raises_for_naive_clock) (simp_all add: example_env_def)

text \<open>
  With a setter that stores the three published times, the feed holds three entries, the
  last one made at the front: their ids are \<^verbatim>\<open>test-<ruleId>-3\<close>, \<^verbatim>\<open>-2\<close> and \<^verbatim>\<open>-1\<close> and
  their published times are the clock reading of turn \<open>n\<close> less \<open>n\<close> hours, for \<open>n\<close> from 3
  down to 1.
\<close>

lemma str_of_nat_digits:
  "lit ''-'' @ [49] = lit ''-1''" "lit ''-'' @ [50] = lit ''-2''" "lit ''-'' @ [51] = lit ''-3''"
  by (simp_all add: lit_def)

lemma test_feed_when_setter_stores:
  assumes "published_rejects env (minus_hours (now_local env 1) 1) = None"
    and "published_rejects env (minus_hours (now_local env 3) 2) = None"
    and "published_rejects env (minus_hours (now_local env 5) 3) = None"
  shows "\<exists>fg. generate_test_feed env rule_id = Inr fg
            \<and> map fe_id (fg_entries fg)
                = [Some (lit ''test-'' @ str_of_int rule_id @ lit ''-3''),
                   Some (lit ''test-'' @ str_of_int rule_id @ lit ''-2''),
                   Some (lit ''test-'' @ str_of_int rule_id @ lit ''-1'')]
            \<and> map fe_published (fg_entries fg)
                = [Some (minus_hours (now_local env 5) 3),
                   Some (minus_hours (now_local env 3) 2),
                   Some (minus_hours (now_local env 1) 1)]"
proof -
  have t: "\<exists>fe. test_entry env rule_id 1 = Inr fe
             \<and> fe_id fe = Some (lit ''test-'' @ str_of_int rule_id @ lit ''-1'')
             \<and> fe_published fe = Some (minus_hours (now_local env 1) 1)"
    "\<exists>fe. test_entry env rule_id 2 = Inr fe
             \<and> fe_id fe = Some (lit ''test-'' @ str_of_int rule_id @ lit ''-2'')
             \<and> fe_published fe = Some (minus_hours (now_local env 3) 2)"
    "\<exists>fe. test_entry env rule_id 3 = Inr fe
             \<and> fe_id fe = Some (lit ''test-'' @ str_of_int rule_id @ lit ''-3'')
             \<and> fe_published fe = Some (minus_hours (now_local env 5) 3)"
    using assms by (simp_all add: test_entry_def Let_def str_of_nat_digits)
  then obtain f1 f2 f3 where
    "test_entry env rule_id 1 = Inr f1" "test_entry env rule_id 2 = Inr f2"
    "test_entry env rule_id 3 = Inr f3"
    and "fe_id f1 = Some (lit ''test-'' @ str_of_int rule_id @ lit ''-1'')"
      "fe_id f2 = Some (lit ''test-'' @ str_of_int rule_id @ lit ''-2'')"
      "fe_id f3 = Some (lit ''test-'' @ str_of_int rule_id @ lit ''-3'')"
      "fe_published f1 = Some (minus_hours (now_local env 1) 1)"
      "fe_published f2 = Some (minus_hours (now_local env 3) 2)"
      "fe_published f3 = Some (minus_hours (now_local env 5) 3)"
    by blast
  then show ?thesis
    by (simp add: generate_test_feed_def)
qed

subsection \<open>The image of an entry\<close>

lemma contains_missing_img_tag: "contains (c @ missing_img_tag u f) u"
  unfolding contains_def sublist_def missing_img_tag_def by (metis append.assoc)

lemma attach_one_image:
  assumes "m_type m = Some t" and "startswith t (lit ''image/'')"
  shows "fst (attach_one env rule_id m (content, encs))
           = (if contains content (full_media_url env rule_id m) then content
              else content @ missing_img_tag (full_media_url env rule_id m) (m_filename m))"
  using assms by (simp add: attach_one_def Let_def split: option.splits)

lemma embed_media_image:
  assumes "m_type m = Some t" and "startswith t (lit ''image/'')"
  shows "embed_media env rule_id html [m]
           = Inr (case get_rule_media_path env rule_id of
                    Inl f \<Rightarrow> html
                  | Inr p \<Rightarrow> html @ img_tag (full_media_url env rule_id m) (m_filename m))"
  using assms by (simp add: embed_one_def split: sum.splits)

text \<open>
  C8. For an entry with exactly one media item, an image, the body is built as follows. The
  first pass appends the image element to the rendered text, unless
  \<^verbatim>\<open>settings.get_rule_media_path\<close> raises: then its handler leaves the text as it is. The
  second pass appends an image element exactly when the derived address does not occur in
  the processed content, wherever in the content that is. So the body contains the address,
  and a second run of the second pass leaves the body as it is; but the body does not have
  to hold an image element: when the first pass appended none and the message text itself
  holds the address, the second pass appends none either.
\<close>

theorem image_element_only_when_address_is_missing:
  assumes "e_media e = [m]" and "m_type m = Some t" and "startswith t (lit ''image/'')"
  shows "\<exists>first_pass processed body encs.
           first_pass
             = (case get_rule_media_path env (e_rule_id e) of
                  Inl f \<Rightarrow> rendered_text env e
                | Inr p \<Rightarrow>
                    rendered_text env e
                    @ img_tag (full_media_url env (e_rule_id e) m) (m_filename m))
         \<and> processed = normalize_html (ensure_html (ensure_content first_pass [m]))
         \<and> body
             = (if contains processed (full_media_url env (e_rule_id e) m) then processed
                else processed @ missing_img_tag (full_media_url env (e_rule_id e) m) (m_filename m))
         \<and> render_body env e = Inr (body, encs)
         \<and> contains body (full_media_url env (e_rule_id e) m)
         \<and> fst (attach_media env (e_rule_id e) (e_media e) (body, encs)) = body"
proof -
  let ?u = "full_media_url env (e_rule_id e) m"
  define first_pass where "first_pass
             = (case get_rule_media_path env (e_rule_id e) of
                  Inl f \<Rightarrow> rendered_text env e
                | Inr p \<Rightarrow> rendered_text env e @ img_tag ?u (m_filename m))"
  define processed where "processed = normalize_html (ensure_html (ensure_content first_pass [m]))"
  define body where "body
             = (if contains processed ?u then processed
                else processed @ missing_img_tag ?u (m_filename m))"
  define encs where "encs = snd (attach_media env (e_rule_id e) (e_media e) (processed, []))"
  have a: "fst (attach_media env (e_rule_id e) (e_media e) (content, encs'))
             = (if contains content ?u then content else content @ missing_img_tag ?u (m_filename m))"
    for content encs'
    using attach_one_image[OF assms(2,3)] by (simp add: assms(1))
  have c1: "embed_media env (e_rule_id e) (rendered_text env e) (e_media e) = Inr first_pass"
    unfolding first_pass_def assms(1) using assms(2,3) by (rule embed_media_image)
  have "render_body env e
          = Inr (attach_media env (e_rule_id e) (e_media e) (processed, []))"
    using c1 by (simp add: render_body_def Let_def rendered_text_def processed_def assms(1))
  moreover have "fst (attach_media env (e_rule_id e) (e_media e) (processed, [])) = body"
    unfolding body_def by (rule a)
  ultimately have b: "render_body env e = Inr (body, encs)"
    unfolding encs_def by (metis prod.collapse)
  have cb: "contains body ?u"
    unfolding body_def using contains_missing_img_tag[of processed ?u "m_filename m"] by simp
  have i: "fst (attach_media env (e_rule_id e) (e_media e) (body, encs)) = body"
    using a[of body encs] cb by simp
  show ?thesis
    using first_pass_def processed_def body_def b cb i by blast
qed

lemma photo_url:
  "full_media_url example_env 7 photo = lit ''http://localhost:8000/media/7/a.jpg''"
  "full_media_url example_env 7 crafted_photo = lit ''http://localhost:8000/media/7/a.jpg''"
  by (simp_all add: full_media_url_def base_url_def media_filename_def split_str_def photo_def
      crafted_photo_def example_env_def str_of_int_def lit_def)

lemma offline_url:
  "full_media_url offline_env 7 photo = lit ''http://localhost:8000/media/7/a.jpg''"
  using photo_url(1) by (simp add: full_media_url_def base_url_def offline_env_def)

lemma linked_text: "rendered_text offline_env linked_entry = linked_body"
proof -
  have m: "markdown offline_env = (\<lambda>t. Inl LibraryError)"
    "title_config offline_env = Inr example_patterns" "re_compile offline_env = example_engine"
    by (simp_all add: offline_env_def example_env_def)
  have c: "e_content linked_entry = Some (lit ''see http://localhost:8000/media/7/a.jpg'')"
    by (simp add: linked_entry_def)
  have p: "try_patterns example_engine example_patterns (lit ''see http://localhost:8000/media/7/a.jpg'')
             = Inr None"
    by (simp add: example_patterns_def example_engine_def match_bold_title_def lit_def)
  have x: "snd (extract_telegram_title_and_content (Inr example_patterns) example_engine
                  (Some (lit ''see http://localhost:8000/media/7/a.jpg'')))
             = lit ''see http://localhost:8000/media/7/a.jpg''"
    using p by (simp add: extract_telegram_title_and_content_def extract_try_def)
  have f: "convert_markdown_to_html (\<lambda>t. Inl LibraryError) (lit ''see http://localhost:8000/media/7/a.jpg'')
             = lit ''<p>'' @ lit ''see http://localhost:8000/media/7/a.jpg'' @ lit ''  '' @ lit ''</p>''"
    by (rule fallback_one_line[where e = LibraryError]) (simp_all add: lit_def nl_def startswith_def)
  show ?thesis
    unfolding rendered_text_def m c using x f by (simp add: linked_body_def lit_def)
qed

text \<open>
  At an entry whose text names the address of its image, with a
  \<^verbatim>\<open>settings.get_rule_media_path\<close> that raises: the body is the text in its paragraph, and no
  image element is in it.
\<close>

theorem image_element_only_when_address_is_missing_witness:
  "e_media linked_entry = [photo]
 \<and> m_type photo = Some (lit ''image/jpeg'')
 \<and> startswith (lit ''image/jpeg'') (lit ''image/'')
 \<and> get_rule_media_path offline_env 7 = Inl OSError
 \<and> (\<exists>encs. render_body offline_env linked_entry = Inr (linked_body, encs))
 \<and> contains linked_body (full_media_url offline_env 7 photo)
 \<and> count_occ linked_body (lit ''<img'') = 0"
proof -
  have e: "e_media linked_entry = [photo]" "e_rule_id linked_entry = 7"
    by (simp_all add: linked_entry_def photo_entry_def)
  have p: "m_type photo = Some (lit ''image/jpeg'')" by (simp add: photo_def)
  have i: "startswith (lit ''image/jpeg'') (lit ''image/'')"
    by (simp add: startswith_def lit_def)
  have g: "get_rule_media_path offline_env 7 = Inl OSError"
    by (simp add: offline_env_def)
  have c: "ensure_content linked_body [photo] = linked_body"
    by (simp add: ensure_content_def linked_body_def lit_def)
  have h: "ensure_html linked_body = linked_body"
    by (simp add: ensure_html_def startswith_def linked_body_def lit_def)
  have n: "normalize_html linked_body = linked_body"
    by (simp add: normalize_html_def match_br_br_def match_empty_p_def match_literal_def
        isspace_def linked_body_def lit_def)
  have k: "contains linked_body (lit ''http://localhost:8000/media/7/a.jpg'')"
    by (simp add: contains_def linked_body_def lit_def sublist_code)
  have o: "count_occ linked_body (lit ''<img'') = 0"
    by (simp add: linked_body_def lit_def)
  note th = image_element_only_when_address_is_missing[of linked_entry photo "lit ''image/jpeg''"
      offline_env, OF e(1) p i, unfolded e g offline_url linked_text]
  from th obtain first_pass processed body encs where
    "first_pass = (case Inl OSError of Inl f \<Rightarrow> linked_body
                   | Inr (p :: str) \<Rightarrow>
                       linked_body @ img_tag (lit ''http://localhost:8000/media/7/a.jpg'') (m_filename photo))"
    and "processed = normalize_html (ensure_html (ensure_content first_pass [photo]))"
    and "body = (if contains processed (lit ''http://localhost:8000/media/7/a.jpg'') then processed
                 else processed @ missing_img_tag (lit ''http://localhost:8000/media/7/a.jpg'')
                                    (m_filename photo))"
    and "render_body offline_env linked_entry = Inr (body, encs)"
    by (elim conjE exE)
  then have "render_body offline_env linked_entry = Inr (linked_body, encs)"
    by (simp add: c h n k)
  then show ?thesis
    using e(1) p i g k o by (auto simp: offline_url)
qed

text \<open>
  C8, as the claim states it, fails in the other direction too: the entry has exactly one
  image, and its body holds two image elements whose source is the derived address. The
  second one comes from the display file name, which the first pass writes into the tag as
  it is.
\<close>

theorem two_embeds_for_one_image:
  "e_media crafted_entry = [crafted_photo]
 \<and> m_type crafted_photo = Some (lit ''image/jpeg'')
 \<and> render_body example_env crafted_entry
      = Inr (crafted_body,
             [\<lparr>enc_url = lit ''http://localhost:8000/media/7/a.jpg'', enc_length = lit ''1024'',
               enc_type = lit ''image/jpeg''\<rparr>])
 \<and> count_occ crafted_body (img_ref (full_media_url example_env 7 crafted_photo)) = 2"
proof -
  have p: "m_type crafted_photo = Some (lit ''image/jpeg'')" "m_size crafted_photo = Some 1024"
    by (simp_all add: crafted_photo_def photo_def)
  have e: "e_media crafted_entry = [crafted_photo]" "e_rule_id crafted_entry = 7"
    "e_content crafted_entry = None"
    by (simp_all add: crafted_entry_def photo_entry_def)
  have g: "get_rule_media_path example_env 7 = Inr (lit ''/data/media/'' @ str_of_int 7)"
    by (simp add: example_env_def)
  have i: "startswith (lit ''image/jpeg'') (lit ''image/'')"
    by (simp add: startswith_def lit_def)
  have t: "img_tag (lit ''http://localhost:8000/media/7/a.jpg'') (m_filename crafted_photo) = crafted_body"
    by (simp add: img_tag_def crafted_photo_def crafted_body_def lit_def)
  have f: "embed_media example_env 7 [] [crafted_photo] = Inr crafted_body"
    by (simp add: embed_one_def photo_url p g i t)
  have c: "ensure_content crafted_body [crafted_photo] = crafted_body"
    by (simp add: ensure_content_def crafted_body_def lit_def)
  have h: "ensure_html crafted_body = crafted_body"
    by (simp add: ensure_html_def startswith_def crafted_body_def lit_def)
  have n: "normalize_html crafted_body = crafted_body"
    by (simp add: normalize_html_def match_br_br_def match_empty_p_def match_literal_def
        isspace_def crafted_body_def lit_def)
  have k: "contains crafted_body (lit ''http://localhost:8000/media/7/a.jpg'')"
    by (simp add: contains_def crafted_body_def lit_def sublist_code)
  have s: "str_of_int 1024 = lit ''1024''"
    by (simp add: str_of_int_def lit_def)
  have a: "attach_media example_env 7 [crafted_photo] (crafted_body, [])
             = (crafted_body,
                [\<lparr>enc_url = lit ''http://localhost:8000/media/7/a.jpg'', enc_length = lit ''1024'',
                  enc_type = lit ''image/jpeg''\<rparr>])"
    by (simp add: attach_one_def photo_url p i k s)
  have r: "render_body example_env crafted_entry
      = Inr (crafted_body,
             [\<lparr>enc_url = lit ''http://localhost:8000/media/7/a.jpg'', enc_length = lit ''1024'',
               enc_type = lit ''image/jpeg''\<rparr>])"
    by (simp add: render_body_def e extract_telegram_title_and_content_def
        convert_markdown_to_html_def f c h n a del: embed_media.simps attach_media.simps)
  have o: "count_occ crafted_body (img_ref (lit ''http://localhost:8000/media/7/a.jpg'')) = 2"
    by (simp add: img_ref_def crafted_body_def lit_def)
  show ?thesis using p e r o by (simp add: photo_url)
qed

end
